theory Spec2Isabelle
  imports
    Main
    "HOL-Library.Log_Nat"
    "HOL-Library.Char_ord"
    "HOL-Library.List_Lexorder"
    "HOL-Library.Sublist"
begin

section \<open>Python values\<close>

text \<open>
  The payload handed to the monitor is what \<^verbatim>\<open>response.json()\<close> returns: a tree of
  \<^verbatim>\<open>None\<close>, booleans, unbounded integers, IEEE doubles, strings, lists and
  dictionaries with string keys.

  A finite double is a dyadic rational: \<open>Fin m k\<close> stands for \<open>m / 2 ^ k\<close>. Negative
  zero, the infinities and NaN are values of their own. A dictionary is an association
  list in insertion order (keys distinct); lookups take the first binding.
\<close>

datatype pyfloat = Fin int nat | NegZero | PosInf | NegInf | NaN

datatype pyval =
    PNone
  | PBool bool
  | PInt int
  | PFloat pyfloat
  | PStr string
  | PList "pyval list"
  | PDict "(string \<times> pyval) list"

text \<open>The exceptions the modelled code can meet. \<open>KeyError\<close> carries the key.\<close>

datatype pyerr =
    KeyError string
  | TypeError
  | AttributeError
  | ValueError
  | OverflowError
  | IndexError

definition ebind :: "'e + 'a \<Rightarrow> ('a \<Rightarrow> 'e + 'b) \<Rightarrow> 'e + 'b" where
  "ebind m f = (case m of Inl e \<Rightarrow> Inl e | Inr x \<Rightarrow> f x)"

text \<open>
  Built-ins of the Python runtime whose results are fixed by the interpreter and the C
  library rather than by this program, and which have no exact counterpart on the
  integers: parsing a string as a double, the double-precision logarithm, and the textual
  forms of doubles and containers. They are parameters of the model.
\<close>

record builtins =
  float_str :: "string \<Rightarrow> pyfloat option"
    \<comment> \<open>\<^verbatim>\<open>float(s)\<close> for a string; \<open>None\<close> when it raises \<^verbatim>\<open>ValueError\<close>\<close>
  math_floor_log :: "int \<Rightarrow> nat"
    \<comment> \<open>\<^verbatim>\<open>math.floor(math.log(x, 1024))\<close> for an integer \<open>x > 0\<close>\<close>
  repr_val :: "pyval \<Rightarrow> string"
    \<comment> \<open>\<^verbatim>\<open>str(v)\<close> for a double, a list or a dictionary\<close>
  comma_float :: "pyfloat \<Rightarrow> string"
    \<comment> \<open>\<^verbatim>\<open>format(x, ',')\<close> for a double\<close>
  json_dumps :: "pyval \<Rightarrow> string"
    \<comment> \<open>\<^verbatim>\<open>json.dumps(v, indent=2)\<close>\<close>

section \<open>Numbers and their text\<close>

text \<open>
  \<^verbatim>\<open>float(n)\<close> for an integer: exact up to \<open>2 ^ 53\<close> in magnitude; beyond that the
  magnitude is rounded to 53 significant bits, ties to even, and the conversion raises
  \<^verbatim>\<open>OverflowError\<close> when the rounded magnitude reaches \<open>2 ^ 1024\<close>.
\<close>

definition float_of_int :: "int \<Rightarrow> pyerr + pyfloat" where
  "float_of_int n =
     (if \<bar>n\<bar> \<le> 2 ^ 53 then Inr (Fin n 0)
      else
        let a = \<bar>n\<bar>;
            sh = nat (bitlen a - 53);
            q = a div 2 ^ sh;
            r = a mod 2 ^ sh;
            q' = (if 2 * r > 2 ^ sh \<or> (2 * r = 2 ^ sh \<and> odd q) then q + 1 else q);
            m = q' * 2 ^ sh
        in if m \<ge> 2 ^ 1024 then Inl OverflowError else Inr (Fin (sgn n * m) 0))"

text \<open>\<^verbatim>\<open>float(value)\<close>.\<close>

fun py_float :: "builtins \<Rightarrow> pyval \<Rightarrow> pyerr + pyfloat" where
  "py_float B PNone = Inl TypeError"
| "py_float B (PBool b) = Inr (Fin (if b then 1 else 0) 0)"
| "py_float B (PInt n) = float_of_int n"
| "py_float B (PFloat x) = Inr x"
| "py_float B (PStr s) = (case float_str B s of None \<Rightarrow> Inl ValueError | Some x \<Rightarrow> Inr x)"
| "py_float B (PList xs) = Inl TypeError"
| "py_float B (PDict kvs) = Inl TypeError"

text \<open>\<^verbatim>\<open>int(x)\<close> for a double: truncation towards zero.\<close>

fun int_of_float :: "pyfloat \<Rightarrow> pyerr + int" where
  "int_of_float (Fin m k) = Inr (sgn m * (\<bar>m\<bar> div 2 ^ k))"
| "int_of_float NegZero = Inr 0"
| "int_of_float PosInf = Inl OverflowError"
| "int_of_float NegInf = Inl OverflowError"
| "int_of_float NaN = Inl ValueError"

text \<open>Decimal digits of a natural number, and \<^verbatim>\<open>str(n)\<close> for an integer.\<close>

definition digit_char :: "nat \<Rightarrow> char" where
  "digit_char d = ''0123456789'' ! d"

fun str_nat :: "nat \<Rightarrow> string" where
  "str_nat n = (if n < 10 then [digit_char n] else str_nat (n div 10) @ [digit_char (n mod 10)])"

declare str_nat.simps [simp del]

definition str_int :: "int \<Rightarrow> string" where
  "str_int i = (if i < 0 then CHR ''-'' # str_nat (nat (- i)) else str_nat (nat i))"

text \<open>
  The format \<^verbatim>\<open>.2f\<close> applied to the exact quotient \<open>n / d\<close> (\<open>d > 0\<close>): the value is
  rounded to hundredths, ties to even, and keeps its sign.
\<close>

definition fmt_2f_ratio :: "int \<Rightarrow> int \<Rightarrow> string" where
  "fmt_2f_ratio n d =
     (let s = \<bar>n\<bar> * 100;
          q = s div d;
          r = s mod d;
          h = (if 2 * r > d \<or> (2 * r = d \<and> odd q) then q + 1 else q);
          body = str_nat (nat (h div 100)) @ ''.'' @
                 [digit_char (nat (h mod 100 div 10)), digit_char (nat (h mod 10))]
      in if n < 0 then CHR ''-'' # body else body)"

fun fmt_2f_float :: "pyfloat \<Rightarrow> string" where
  "fmt_2f_float (Fin m k) = fmt_2f_ratio m (2 ^ k)"
| "fmt_2f_float NegZero = ''-0.00''"
| "fmt_2f_float PosInf = ''inf''"
| "fmt_2f_float NegInf = ''-inf''"
| "fmt_2f_float NaN = ''nan''"

section \<open>Utility functions\<close>

text \<open>
  \<^verbatim>\<open>safe_int\<close>: \<^verbatim>\<open>None\<close> and the empty string give 0; otherwise
  \<^verbatim>\<open>int(float(value))\<close>, where \<^verbatim>\<open>ValueError\<close> and \<^verbatim>\<open>TypeError\<close> are caught
  and give 0. \<^verbatim>\<open>OverflowError\<close> is not in the \<^verbatim>\<open>except\<close> clause and propagates.
\<close>

definition safe_int :: "builtins \<Rightarrow> pyval \<Rightarrow> pyerr + int" where
  "safe_int B v =
     (if v = PNone \<or> v = PStr '''' then Inr 0
      else case ebind (py_float B v) int_of_float of
             Inl ValueError \<Rightarrow> Inr 0
           | Inl TypeError \<Rightarrow> Inr 0
           | r \<Rightarrow> r)"

definition rstrip :: "char \<Rightarrow> string \<Rightarrow> string" where
  "rstrip c s = rev (dropWhile (\<lambda>x. x = c) (rev s))"

fun join :: "string \<Rightarrow> string list \<Rightarrow> string" where
  "join sep [] = []"
| "join sep [x] = x"
| "join sep (x # y # ys) = x @ sep @ join sep (y # ys)"

definition intervals :: "(string \<times> int) list" where
  "intervals = [(''years'', 31536000), (''days'', 86400), (''hours'', 3600), (''minutes'', 60)]"

definition unit_text :: "int \<Rightarrow> string \<Rightarrow> string" where
  "unit_text v name =
     (if v > 1 then str_int v @ '' '' @ name else str_int v @ '' '' @ rstrip CHR ''s'' name)"

text \<open>The \<^verbatim>\<open>for name, count in intervals\<close> loop, threading \<^verbatim>\<open>seconds\<close> and \<^verbatim>\<open>result\<close>.\<close>

fun td_loop :: "(string \<times> int) list \<Rightarrow> int \<Rightarrow> string list \<Rightarrow> int \<times> string list" where
  "td_loop [] seconds result = (seconds, result)"
| "td_loop ((name, count) # rest) seconds result =
     (let v = seconds div count
      in if v \<noteq> 0 then td_loop rest (seconds - v * count) (result @ [unit_text v name])
         else td_loop rest seconds result)"

definition format_timedelta :: "builtins \<Rightarrow> pyval \<Rightarrow> pyerr + string" where
  "format_timedelta B v =
     ebind (safe_int B v) (\<lambda>seconds.
       if seconds \<le> 0 then Inr ''N/A or Fresh Start''
       else
         let (seconds', result) = td_loop intervals seconds []
         in if result = [] \<and> seconds' > 0 then Inr (str_int seconds' @ '' seconds'')
            else
              let joined = join '', '' (take 3 result)
              in Inr (if joined = [] then ''Just started'' else joined))"

definition sizes :: "string list" where
  "sizes = [''Bytes'', ''KB'', ''MB'', ''GB'', ''TB'', ''PB'', ''EB'', ''ZB'', ''YB'']"

text \<open>
  \<^verbatim>\<open>format_bytes\<close>, always called with the default \<^verbatim>\<open>decimals=2\<close>. The byte count
  that reaches the division is a value of \<^verbatim>\<open>int(float(_))\<close>, and its quotient by a power
  of 1024 is formatted from its exact value.
\<close>

definition format_bytes :: "builtins \<Rightarrow> pyval \<Rightarrow> pyerr + string" where
  "format_bytes B v =
     ebind (safe_int B v) (\<lambda>bytes_value.
       if bytes_value = 0 then Inr ''0 Bytes''
       else
         let i = (if bytes_value > 0
                  then min (math_floor_log B bytes_value) (length sizes - 1) else 0)
         in Inr (fmt_2f_ratio bytes_value (1024 ^ i) @ '' '' @ sizes ! i))"

section \<open>Operations on payload values\<close>

text \<open>\<^verbatim>\<open>v[k]\<close> for a string key: only a dictionary takes one.\<close>

fun subscript :: "pyval \<Rightarrow> string \<Rightarrow> pyerr + pyval" where
  "subscript (PDict kvs) k = (case map_of kvs k of None \<Rightarrow> Inl (KeyError k) | Some x \<Rightarrow> Inr x)"
| "subscript v k = Inl TypeError"

text \<open>\<^verbatim>\<open>v.get(k, d)\<close>: only a dictionary has the method.\<close>

fun dict_get :: "pyval \<Rightarrow> string \<Rightarrow> pyval \<Rightarrow> pyerr + pyval" where
  "dict_get (PDict kvs) k d = Inr (case map_of kvs k of None \<Rightarrow> d | Some x \<Rightarrow> x)"
| "dict_get v k d = Inl AttributeError"

text \<open>\<^verbatim>\<open>len(v)\<close> and \<^verbatim>\<open>v[i]\<close> for an index \<open>i\<close> below the length.\<close>

fun py_len :: "pyval \<Rightarrow> pyerr + nat" where
  "py_len (PList xs) = Inr (length xs)"
| "py_len (PStr s) = Inr (length s)"
| "py_len (PDict kvs) = Inr (length kvs)"
| "py_len v = Inl TypeError"

fun index_int :: "pyval \<Rightarrow> nat \<Rightarrow> pyerr + pyval" where
  "index_int (PList xs) i = (if i < length xs then Inr (xs ! i) else Inl IndexError)"
| "index_int (PStr s) i = (if i < length s then Inr (PStr [s ! i]) else Inl IndexError)"
| "index_int (PDict kvs) i = Inl (KeyError (str_nat i))"
| "index_int v i = Inl TypeError"

text \<open>Truth value of a payload value, as \<^verbatim>\<open>if v\<close> takes it.\<close>

fun truthy :: "pyval \<Rightarrow> bool" where
  "truthy PNone = False"
| "truthy (PBool b) = b"
| "truthy (PInt n) = (n \<noteq> 0)"
| "truthy (PFloat (Fin m k)) = (m \<noteq> 0)"
| "truthy (PFloat NegZero) = False"
| "truthy (PFloat x) = True"
| "truthy (PStr s) = (s \<noteq> [])"
| "truthy (PList xs) = (xs \<noteq> [])"
| "truthy (PDict kvs) = (kvs \<noteq> [])"

text \<open>\<^verbatim>\<open>str(v)\<close>, which is also what an f-string field without a format gives.\<close>

fun py_str :: "builtins \<Rightarrow> pyval \<Rightarrow> string" where
  "py_str B PNone = ''None''"
| "py_str B (PBool b) = (if b then ''True'' else ''False'')"
| "py_str B (PInt n) = str_int n"
| "py_str B (PStr s) = s"
| "py_str B v = repr_val B v"

text \<open>The f-string field \<^verbatim>\<open>{v:.2f}\<close>.\<close>

fun fmt_2f :: "pyval \<Rightarrow> pyerr + string" where
  "fmt_2f (PInt n) = ebind (float_of_int n) (\<lambda>x. Inr (fmt_2f_float x))"
| "fmt_2f (PBool b) = Inr (if b then ''1.00'' else ''0.00'')"
| "fmt_2f (PFloat x) = Inr (fmt_2f_float x)"
| "fmt_2f (PStr s) = Inl ValueError"
| "fmt_2f v = Inl TypeError"

text \<open>The f-string field \<^verbatim>\<open>{v:,}\<close>: thousands separated by commas.\<close>

definition digits3 :: "nat \<Rightarrow> string" where
  "digits3 r = [digit_char (r div 100), digit_char (r div 10 mod 10), digit_char (r mod 10)]"

fun group_nat :: "nat \<Rightarrow> string" where
  "group_nat n =
     (if n < 1000 then str_nat n else group_nat (n div 1000) @ '','' @ digits3 (n mod 1000))"

declare group_nat.simps [simp del]

definition group_int :: "int \<Rightarrow> string" where
  "group_int i = (if i < 0 then CHR ''-'' # group_nat (nat (- i)) else group_nat (nat i))"

fun fmt_comma :: "builtins \<Rightarrow> pyval \<Rightarrow> pyerr + string" where
  "fmt_comma B (PInt n) = Inr (group_int n)"
| "fmt_comma B (PBool b) = Inr (if b then ''1'' else ''0'')"
| "fmt_comma B (PFloat x) = Inr (comma_float B x)"
| "fmt_comma B (PStr s) = Inl ValueError"
| "fmt_comma B v = Inl TypeError"

section \<open>Fetching\<close>

text \<open>
  The request \<^verbatim>\<open>requests.get(api_url, headers=headers, timeout=15)\<close> and what comes of it.
  The network is a function from the request to its outcome: an exception of
  \<^verbatim>\<open>requests\<close> with its text, or the parsed body of a response that passed
  \<^verbatim>\<open>raise_for_status\<close> and \<^verbatim>\<open>response.json()\<close>.
\<close>

record request =
  api_url :: string
  nc_token_header :: string

datatype net_outcome =
    NetHTTPError string
  | NetConnectionError string
  | NetTimeout
  | NetOtherError string
  | NetJson pyval

definition API_SUFFIX :: string where
  "API_SUFFIX = ''/ocs/v2.php/apps/serverinfo/api/v1/info?format=json''"

fun type_name :: "pyval \<Rightarrow> string" where
  "type_name PNone = ''NoneType''"
| "type_name (PBool b) = ''bool''"
| "type_name (PInt n) = ''int''"
| "type_name (PFloat x) = ''float''"
| "type_name (PStr s) = ''str''"
| "type_name (PList xs) = ''list''"
| "type_name (PDict kvs) = ''dict''"

text \<open>\<^verbatim>\<open>v.get(k, d)\<close> inside \<^verbatim>\<open>fetch_metrics\<close>, where the text of the exception matters.\<close>

definition get_or_text :: "pyval \<Rightarrow> string \<Rightarrow> pyval \<Rightarrow> string + pyval" where
  "get_or_text v k d =
     (case dict_get v k d of
        Inl e \<Rightarrow> Inl ([CHR 0x27] @ type_name v @ [CHR 0x27] @ '' object has no attribute '' @
                   [CHR 0x27] @ ''get'' @ [CHR 0x27])
      | Inr x \<Rightarrow> Inr x)"

text \<open>
  The envelope check of \<^verbatim>\<open>fetch_metrics\<close>; \<open>Inl\<close> carries the text of the exception
  raised inside the \<^verbatim>\<open>try\<close> block.
\<close>

definition check_envelope :: "builtins \<Rightarrow> pyval \<Rightarrow> string + pyval" where
  "check_envelope B data =
     ebind (get_or_text data ''ocs'' (PDict [])) (\<lambda>ocs.
     ebind (get_or_text ocs ''meta'' (PDict [])) (\<lambda>meta.
     ebind (get_or_text meta ''status'' PNone) (\<lambda>status.
       if status \<noteq> PStr ''ok''
       then ebind (get_or_text meta ''message'' (PStr ''Unknown error'')) (\<lambda>message.
              Inl (''API Status Error: '' @ py_str B message))
       else Inr data)))"

text \<open>
  \<^verbatim>\<open>fetch_metrics\<close>: \<open>Inl\<close> carries the text of the exception it raises. The exception
  raised for a bad envelope status is raised inside the \<^verbatim>\<open>try\<close> block and is caught
  by its last handler, \<^verbatim>\<open>except Exception\<close>, like any other unexpected error.
\<close>

definition fetch_metrics ::
    "builtins \<Rightarrow> (request \<Rightarrow> net_outcome) \<Rightarrow> string \<Rightarrow> string \<Rightarrow> string + pyval" where
  "fetch_metrics B net nc_url nc_token =
     (case net \<lparr>api_url = rstrip CHR ''/'' nc_url @ API_SUFFIX, nc_token_header = nc_token\<rparr> of
        NetHTTPError err \<Rightarrow> Inl (''HTTP Error: '' @ err @ ''. Check URL/Token.'')
      | NetConnectionError err \<Rightarrow> Inl (''Connection Error: '' @ err @ ''. Server unreachable.'')
      | NetTimeout \<Rightarrow> Inl ''Request timed out after 15 seconds.''
      | NetOtherError err \<Rightarrow> Inl (''An unexpected error occurred: '' @ err)
      | NetJson data \<Rightarrow>
          (case check_envelope B data of
             Inl err \<Rightarrow> Inl (''An unexpected error occurred: '' @ err)
           | Inr d \<Rightarrow> Inr d))"

section \<open>Processing a payload\<close>

text \<open>
  The computation inside the \<^verbatim>\<open>try\<close> block of \<^verbatim>\<open>update_gui_metrics\<close>, from the
  extraction of the groups to the \<^verbatim>\<open>updates\<close> dictionary. \<open>Inl\<close> is the exception
  that ends the block.
\<close>

definition KB_TO_BYTES :: int where
  "KB_TO_BYTES = 1024"

text \<open>\<^verbatim>\<open>data['ocs']['data'][k]\<close> and \<^verbatim>\<open>data['ocs']['data'].get(k, d)\<close>.\<close>

definition ocs_data_item :: "pyval \<Rightarrow> string \<Rightarrow> pyerr + pyval" where
  "ocs_data_item data k =
     ebind (subscript data ''ocs'') (\<lambda>ocs. ebind (subscript ocs ''data'') (\<lambda>d. subscript d k))"

definition ocs_data_get :: "pyval \<Rightarrow> string \<Rightarrow> pyval \<Rightarrow> pyerr + pyval" where
  "ocs_data_get data k dflt =
     ebind (subscript data ''ocs'') (\<lambda>ocs. ebind (subscript ocs ''data'') (\<lambda>d. dict_get d k dflt))"

text \<open>\<^verbatim>\<open>safe_int(d.get(k, dflt))\<close>.\<close>

definition get_int :: "builtins \<Rightarrow> pyval \<Rightarrow> string \<Rightarrow> pyval \<Rightarrow> pyerr + int" where
  "get_int B d k dflt = ebind (dict_get d k dflt) (safe_int B)"

text \<open>
  System health: RAM and swap, reported in kilobytes and converted to bytes.
\<close>

record health =
  ram_total :: int
  ram_used :: int
  swap_total :: int
  swap_used :: int

definition system_health :: "builtins \<Rightarrow> pyval \<Rightarrow> pyerr + health" where
  "system_health B si =
     ebind (get_int B si ''mem_total'' (PInt 0)) (\<lambda>ram_total_kb.
     ebind (get_int B si ''mem_free'' (PInt 0)) (\<lambda>ram_free_kb.
     ebind (get_int B si ''swap_total'' (PInt 0)) (\<lambda>swap_total_kb.
     ebind (get_int B si ''swap_free'' (PInt 0)) (\<lambda>swap_free_kb.
       Inr \<lparr>ram_total = ram_total_kb * KB_TO_BYTES,
            ram_used = (ram_total_kb - ram_free_kb) * KB_TO_BYTES,
            swap_total = swap_total_kb * KB_TO_BYTES,
            swap_used = (swap_total_kb - swap_free_kb) * KB_TO_BYTES\<rparr>))))"

text \<open>
  \<^verbatim>\<open>cpuload_data[i] if len(cpuload_data) > i else 0\<close>, for \<open>i\<close> = 0, 1, 2.
\<close>

definition cpu_load_at :: "pyval \<Rightarrow> nat \<Rightarrow> pyerr + pyval" where
  "cpu_load_at cpuload_data i =
     ebind (py_len cpuload_data) (\<lambda>n. if n > i then index_int cpuload_data i else Inr (PInt 0))"

definition cpu_load :: "pyval \<Rightarrow> pyerr + pyval \<times> pyval \<times> pyval" where
  "cpu_load si =
     ebind (dict_get si ''cpuload'' (PList [PInt 0, PInt 0, PInt 0])) (\<lambda>cpuload_data.
     ebind (cpu_load_at cpuload_data 0) (\<lambda>c0.
     ebind (cpu_load_at cpuload_data 1) (\<lambda>c1.
     ebind (cpu_load_at cpuload_data 2) (\<lambda>c2. Inr (c0, c1, c2)))))"

text \<open>PHP uptime; \<open>current_time_ts\<close> is \<^verbatim>\<open>int(time.time())\<close>.\<close>

definition uptime_seconds :: "int \<Rightarrow> int \<Rightarrow> int" where
  "uptime_seconds start_time_ts current_time_ts =
     (if start_time_ts > 0 \<and> current_time_ts > start_time_ts
      then current_time_ts - start_time_ts else 0)"

text \<open>Storage overview, with the fallback to the system's free space.\<close>

definition storage_displays :: "builtins \<Rightarrow> pyval \<Rightarrow> pyval \<Rightarrow> pyerr + string \<times> string" where
  "storage_displays B sd si =
     ebind (get_int B sd ''free'' PNone) (\<lambda>storage_free.
     ebind (get_int B sd ''used'' PNone) (\<lambda>storage_used.
       if storage_used = 0 \<and> storage_free = 0
       then
         ebind (get_int B si ''freespace'' PNone) (\<lambda>storage_free.
         ebind (format_bytes B (PInt storage_free)) (\<lambda>fb.
           Inr (''0 Bytes (Data Missing)'', fb @ '' (System Freespace)'')))
       else
         ebind (format_bytes B (PInt storage_used)) (\<lambda>storage_used_display.
         ebind (format_bytes B (PInt storage_free)) (\<lambda>storage_free_display.
           Inr (storage_used_display, storage_free_display)))))"

text \<open>
  The app list. The lines of one entry of \<^verbatim>\<open>enabled\<close>: a record gives its id and
  version, a bare name gives the name, anything else gives no line.
\<close>

fun app_lines :: "builtins \<Rightarrow> pyval \<Rightarrow> string list" where
  "app_lines B (PDict kvs) =
     [py_str B (case map_of kvs ''id'' of None \<Rightarrow> PStr ''Unknown App'' | Some x \<Rightarrow> x) @ '': v'' @
      py_str B (case map_of kvs ''version'' of None \<Rightarrow> PStr ''N/A'' | Some x \<Rightarrow> x)]"
| "app_lines B (PStr s) = [s @ '': vN/A'']"
| "app_lines B v = []"

record app_info =
  enabled_app_count :: string
  total_app_count :: string
  enabled_app_lines_str :: string

definition app_missing :: app_info where
  "app_missing =
     \<lparr>enabled_app_count = ''N/A (Data Missing)'',
      total_app_count = ''N/A (Data Missing)'',
      enabled_app_lines_str = ''APP DATA IS MISSING FROM NEXTCLOUD API RESPONSE.''\<rparr>"

definition app_summary :: "builtins \<Rightarrow> pyval \<Rightarrow> app_info" where
  "app_summary B app_data =
     (case app_data of
        PDict kvs \<Rightarrow>
          if kvs = [] then app_missing
          else
            (case (case map_of kvs ''enabled'' of None \<Rightarrow> PList [] | Some x \<Rightarrow> x,
                   case map_of kvs ''installed'' of None \<Rightarrow> PList [] | Some x \<Rightarrow> x) of
               (PList enabled_apps, PList installed_apps) \<Rightarrow>
                 \<lparr>enabled_app_count = str_nat (length enabled_apps),
                  total_app_count = str_nat (length installed_apps),
                  enabled_app_lines_str =
                    join [CHR 0x0A] (sort (concat (map (app_lines B) enabled_apps)))\<rparr>
             | _ \<Rightarrow> app_missing)
      | _ \<Rightarrow> app_missing)"

text \<open>Everything computed before the \<^verbatim>\<open>updates\<close> dictionary is built.\<close>

record extracted =
  server_data :: pyval
  active_users :: pyval
  system_info :: pyval
  db_info :: pyval
  php_info :: pyval
  storage_data :: pyval
  shares :: pyval
  sys_health :: health
  cpu_loads :: "pyval \<times> pyval \<times> pyval"
  opcache_hit_rate :: pyval
  opcache_used_memory :: pyval
  wasted_memory :: pyval
  uptime_display :: string
  storage_used_display :: string
  storage_free_display :: string
  apps :: app_info

definition extract_values :: "builtins \<Rightarrow> int \<Rightarrow> pyval \<Rightarrow> pyerr + extracted" where
  "extract_values B current_time_ts data =
     ebind (ocs_data_item data ''nextcloud'') (\<lambda>nc_data.
     ebind (ocs_data_item data ''server'') (\<lambda>srv.
     ebind (ocs_data_item data ''activeUsers'') (\<lambda>au.
     ebind (dict_get nc_data ''system'' (PDict [])) (\<lambda>si.
     ebind (dict_get srv ''database'' (PDict [])) (\<lambda>dbi.
     ebind (dict_get srv ''php'' (PDict [])) (\<lambda>phpi.
     ebind (dict_get nc_data ''storage'' (PDict [])) (\<lambda>sd.
     ebind (dict_get nc_data ''shares'' (PDict [])) (\<lambda>sh.
     ebind (ebind (dict_get phpi ''opcache'' (PDict []))
                  (\<lambda>oc. dict_get oc ''opcache_statistics'' (PDict []))) (\<lambda>opcache_stats.
     ebind (ebind (dict_get phpi ''opcache'' (PDict []))
                  (\<lambda>oc. dict_get oc ''memory_usage'' (PDict []))) (\<lambda>opcache_memory.
     ebind (system_health B si) (\<lambda>h.
     ebind (cpu_load si) (\<lambda>cl.
     ebind (dict_get opcache_stats ''opcache_hit_rate'' (PFloat (Fin 0 0))) (\<lambda>hit.
     ebind (dict_get opcache_memory ''used_memory'' (PInt 0)) (\<lambda>used.
     ebind (dict_get opcache_memory ''wasted_memory'' (PInt 0)) (\<lambda>wasted.
     ebind (get_int B opcache_stats ''start_time'' (PInt 0)) (\<lambda>start_time_ts.
     ebind (format_timedelta B (PInt (uptime_seconds start_time_ts current_time_ts))) (\<lambda>up.
     ebind (storage_displays B sd si) (\<lambda>st.
     ebind (ocs_data_get data ''app'' PNone) (\<lambda>app_data.
       Inr \<lparr>server_data = srv, active_users = au, system_info = si, db_info = dbi,
            php_info = phpi, storage_data = sd, shares = sh, sys_health = h, cpu_loads = cl,
            opcache_hit_rate = hit, opcache_used_memory = used, wasted_memory = wasted,
            uptime_display = up, storage_used_display = fst st,
            storage_free_display = snd st,
            apps = app_summary B app_data\<rparr>)))))))))))))))))))"

text \<open>
  The entries of the \<^verbatim>\<open>updates\<close> dictionary, in the order of the literal; each value
  is the expression of the source, which may raise. The value of a key that the source
  hands over unconverted goes through \<^verbatim>\<open>str(value)\<close> when the label is set.
\<close>

definition get_str :: "builtins \<Rightarrow> pyval \<Rightarrow> string \<Rightarrow> pyval \<Rightarrow> pyerr + string" where
  "get_str B d k dflt = ebind (dict_get d k dflt) (\<lambda>v. Inr (py_str B v))"

definition update_entries :: "builtins \<Rightarrow> extracted \<Rightarrow> (string \<times> (pyerr + string)) list" where
  "update_entries B x =
     [(''version_val'', get_str B (system_info x) ''version'' (PStr ''N/A'')),
      (''php_uptime_val'', Inr (uptime_display x)),
      (''users_val'', get_str B (storage_data x) ''num_users'' (PInt 0)),
      (''files_val'', ebind (dict_get (storage_data x) ''num_files'' (PInt 0)) (fmt_comma B)),
      (''webserver_val'', get_str B (server_data x) ''webserver'' (PStr ''N/A'')),
      (''cpunum_val'', get_str B (system_info x) ''cpunum'' (PStr ''N/A'')),
      (''active5m_val'', get_str B (active_users x) ''last5minutes'' (PInt 0)),
      (''active1h_val'', get_str B (active_users x) ''last1hour'' (PInt 0)),
      (''active24h_val'', get_str B (active_users x) ''last24hours'' (PInt 0)),
      (''maintenance_val'',
         ebind (dict_get (system_info x) ''maintenance'' (PBool False))
           (\<lambda>v. Inr (if truthy v then ''Yes'' else ''No''))),
      (''failed_logins_val'', get_str B (system_info x) ''failing_login_attempts'' (PInt 0)),
      (''total_shares_val'', get_str B (shares x) ''num_shares'' (PInt 0)),
      (''local_shares_val'', get_str B (shares x) ''num_shares_user'' (PInt 0)),
      (''federated_shares_val'', get_str B (shares x) ''num_fed_shares_sent'' (PInt 0)),
      (''public_shares_val'', get_str B (shares x) ''num_shares_link'' (PInt 0)),
      (''ram_used_val'', format_bytes B (PInt (ram_used (sys_health x)))),
      (''ram_total_val'', format_bytes B (PInt (ram_total (sys_health x)))),
      (''swap_used_val'', format_bytes B (PInt (swap_used (sys_health x)))),
      (''cpu1m_val'', fmt_2f (fst (cpu_loads x))),
      (''cpu5m_val'', fmt_2f (fst (snd (cpu_loads x)))),
      (''cpu15m_val'', fmt_2f (snd (snd (cpu_loads x)))),
      (''opcache_hit_rate_val'', ebind (fmt_2f (opcache_hit_rate x)) (\<lambda>s. Inr (s @ ''%''))),
      (''opcache_used_val'', format_bytes B (opcache_used_memory x)),
      (''opcache_wasted_val'', format_bytes B (wasted_memory x)),
      (''storage_used_val'', Inr (storage_used_display x)),
      (''storage_free_val'', Inr (storage_free_display x)),
      (''db_size_val'',
         ebind (get_int B (db_info x) ''size'' PNone) (\<lambda>n. format_bytes B (PInt n))),
      (''enabled_apps_val'', Inr (enabled_app_count (apps x))),
      (''app_count_val'', Inr (total_app_count (apps x))),
      (''php_val'', get_str B (php_info x) ''version'' (PStr ''N/A'')),
      (''php_memory_limit_val'',
         ebind (dict_get (php_info x) ''memory_limit'' (PInt 0)) (format_bytes B)),
      (''php_max_exec_val'',
         ebind (get_str B (php_info x) ''max_execution_time'' (PStr ''N/A''))
           (\<lambda>s. Inr (s @ ''s''))),
      (''db_type_val'', get_str B (db_info x) ''type'' (PStr ''N/A'')),
      (''db_version_val'', get_str B (db_info x) ''version'' (PStr ''N/A'')),
      (''db_host_val'', get_str B (db_info x) ''host'' (PStr ''N/A''))]"

text \<open>Evaluating the entries in order: the first exception ends the evaluation.\<close>

fun collect :: "(string \<times> (pyerr + string)) list \<Rightarrow> pyerr + (string \<times> string) list" where
  "collect [] = Inr []"
| "collect ((k, v) # rest) =
     ebind v (\<lambda>s. ebind (collect rest) (\<lambda>ys. Inr ((k, s) # ys)))"

record snapshot =
  updates :: "(string \<times> string) list"
  app_lines_text :: string

definition normalize_payload :: "builtins \<Rightarrow> int \<Rightarrow> pyval \<Rightarrow> pyerr + snapshot" where
  "normalize_payload B current_time_ts data =
     ebind (extract_values B current_time_ts data) (\<lambda>x.
     ebind (collect (update_entries B x)) (\<lambda>u.
       Inr \<lparr>updates = u, app_lines_text = enabled_app_lines_str (apps x)\<rparr>))"

section \<open>The application\<close>

text \<open>
  The state of \<^verbatim>\<open>NextcloudMonitorApp\<close> that the fetch cycle reads and writes. The
  server configuration is the dictionary built by \<^verbatim>\<open>find_and_load_configs\<close>. A worker
  is a \<^verbatim>\<open>NextcloudWorker\<close>: it holds the URL and the token it was created with, and its
  signals are connected to \<^verbatim>\<open>update_gui_metrics\<close> and \<^verbatim>\<open>handle_fetch_error\<close>. The
  thread pool is the list of workers handed to \<^verbatim>\<open>QThreadPool.start\<close> whose signal has
  not been delivered yet. The text of the status bar is kept by its kind, without the
  clock times it quotes.
\<close>

record config =
  cfg_name :: string
  cfg_url :: string
  cfg_token :: string
  cfg_path :: string

record worker =
  w_url :: string
  w_token :: string

datatype status =
    Initializing
  | Monitoring string
  | FetchingNewData
  | FetchError string
  | LastUpdated
  | ErrorProcessingData

record app =
  current_config :: config
  nc_url :: string
  nc_token :: string
  window_title :: string
  metric_labels :: "(string \<times> string) list"
  app_list_text :: string
  raw_data_text :: string
  status_bar :: status
  critical_boxes :: "pyerr list"
  refresh_interval_ms :: int
  refresh_timer :: "int option"
  thread_pool :: "worker list"

definition metric_keys :: "string list" where
  "metric_keys =
     [''version_val'', ''php_uptime_val'', ''users_val'', ''files_val'', ''webserver_val'',
      ''cpunum_val'', ''active5m_val'', ''active1h_val'', ''active24h_val'',
      ''maintenance_val'', ''failed_logins_val'', ''total_shares_val'', ''local_shares_val'',
      ''federated_shares_val'', ''public_shares_val'', ''ram_used_val'', ''ram_total_val'',
      ''swap_used_val'', ''cpu1m_val'', ''cpu5m_val'', ''cpu15m_val'',
      ''opcache_hit_rate_val'', ''opcache_used_val'', ''opcache_wasted_val'',
      ''storage_used_val'', ''storage_free_val'', ''db_size_val'', ''enabled_apps_val'',
      ''app_count_val'', ''php_val'', ''php_memory_limit_val'', ''php_max_exec_val'',
      ''db_type_val'', ''db_version_val'', ''db_host_val'']"

definition DEFAULT_REFRESH_INTERVAL_MS :: int where
  "DEFAULT_REFRESH_INTERVAL_MS = 60000"

text \<open>\<^verbatim>\<open>start_fetch\<close>: a new worker for the current URL and token goes to the pool.\<close>

definition start_fetch :: "app \<Rightarrow> app" where
  "start_fetch s =
     s\<lparr>status_bar := FetchingNewData,
       thread_pool := thread_pool s @ [\<lparr>w_url = nc_url s, w_token = nc_token s\<rparr>]\<rparr>"

definition apply_new_config :: "config \<Rightarrow> app \<Rightarrow> app" where
  "apply_new_config config_object s =
     start_fetch
       (s\<lparr>current_config := config_object,
          nc_url := cfg_url config_object,
          nc_token := cfg_token config_object,
          window_title := ''Gobytego Nextcloud Monitor: '' @ cfg_url config_object,
          metric_labels := map (\<lambda>(k, t). (k, ''N/A'')) (metric_labels s),
          app_list_text := ''Apps list loading...'',
          raw_data_text := ''Fetching raw data...'',
          status_bar := Monitoring (cfg_url config_object),
          refresh_timer := Some (refresh_interval_ms s)\<rparr>)"

text \<open>
  \<^verbatim>\<open>__init__\<close>: every label reads N/A, the interval is the default, and the initial
  configuration is applied, which starts the first fetch.
\<close>

definition init_app :: "config \<Rightarrow> app" where
  "init_app initial_config =
     apply_new_config initial_config
       \<lparr>current_config = initial_config,
        nc_url = cfg_url initial_config,
        nc_token = cfg_token initial_config,
        window_title = ''Gobytego Nextcloud Monitor: '' @ cfg_url initial_config,
        metric_labels = map (\<lambda>k. (k, ''N/A'')) metric_keys,
        app_list_text = ''Apps list loading...'',
        raw_data_text = ''Fetching raw data...'',
        status_bar = Initializing,
        critical_boxes = [],
        refresh_interval_ms = DEFAULT_REFRESH_INTERVAL_MS,
        refresh_timer = None,
        thread_pool = []\<rparr>"

definition handle_fetch_error :: "string \<Rightarrow> app \<Rightarrow> app" where
  "handle_fetch_error error_message s =
     s\<lparr>raw_data_text :=
         ''ERROR: Could not fetch data. Check your URL/Token.'' @ [CHR 0x0A, CHR 0x0A] @
         error_message,
       status_bar := FetchError error_message\<rparr>"

text \<open>
  \<^verbatim>\<open>for key, value in updates.items(): if key in self.metric_labels: ... setText(str(value))\<close>
\<close>

definition set_text :: "string \<Rightarrow> string \<Rightarrow> (string \<times> string) list \<Rightarrow> (string \<times> string) list" where
  "set_text k v labels = map (\<lambda>(k', t). if k' = k then (k', v) else (k', t)) labels"

definition set_labels ::
    "(string \<times> string) list \<Rightarrow> (string \<times> string) list \<Rightarrow> (string \<times> string) list" where
  "set_labels ups labels =
     fold (\<lambda>(k, v) ls. if k \<in> fst ` set ls then set_text k v ls else ls) ups labels"

text \<open>
  \<^verbatim>\<open>update_gui_metrics\<close>: the raw text is set first; an exception anywhere in the block
  is caught, shown in a critical message box and in the status bar, and no label is set.
\<close>

definition update_gui_metrics :: "builtins \<Rightarrow> int \<Rightarrow> pyval \<Rightarrow> app \<Rightarrow> app" where
  "update_gui_metrics B current_time_ts data s =
     (let s' = s\<lparr>raw_data_text := json_dumps B data\<rparr>
      in case normalize_payload B current_time_ts data of
           Inr snap \<Rightarrow>
             s'\<lparr>metric_labels := set_labels (updates snap) (metric_labels s'),
                app_list_text := app_lines_text snap,
                status_bar := LastUpdated\<rparr>
         | Inl e \<Rightarrow>
             s'\<lparr>critical_boxes := critical_boxes s' @ [e],
                status_bar := ErrorProcessingData\<rparr>)"

text \<open>
  A worker of the pool finishes: \<^verbatim>\<open>run\<close> calls \<^verbatim>\<open>fetch_metrics\<close> with the URL and
  token the worker holds and emits \<^verbatim>\<open>data_fetched\<close> or \<^verbatim>\<open>error\<close>; the connected slot
  runs on the application's state as it is then.
\<close>

definition worker_finished ::
    "builtins \<Rightarrow> (request \<Rightarrow> net_outcome) \<Rightarrow> int \<Rightarrow> worker \<Rightarrow> app \<Rightarrow> app" where
  "worker_finished B net current_time_ts w s =
     (let s' = s\<lparr>thread_pool := remove1 w (thread_pool s)\<rparr>
      in case fetch_metrics B net (w_url w) (w_token w) of
           Inr data \<Rightarrow> update_gui_metrics B current_time_ts data s'
         | Inl error_message \<Rightarrow> handle_fetch_error error_message s')"

section \<open>The renderings the specification describes\<close>

text \<open>
  The uptime text as the specification words it: the years, days, hours and minutes of
  the duration, the units that are not zero, each with its singular or plural name, at
  most the first three, joined by a comma and a space.
\<close>

definition duration_units :: "int \<Rightarrow> (int \<times> string) list" where
  "duration_units u =
     [(u div 31536000, ''year''),
      (u mod 31536000 div 86400, ''day''),
      (u mod 31536000 mod 86400 div 3600, ''hour''),
      (u mod 31536000 mod 86400 mod 3600 div 60, ''minute'')]"

definition unit_component :: "int \<times> string \<Rightarrow> string" where
  "unit_component c = str_int (fst c) @ '' '' @ snd c @ (if fst c > 1 then ''s'' else [])"

definition duration_components :: "int \<Rightarrow> string list" where
  "duration_components u =
     take 3 (map unit_component (filter (\<lambda>c. fst c \<noteq> 0) (duration_units u)))"

definition duration_text :: "int \<Rightarrow> string" where
  "duration_text u =
     (if u \<le> 0 then ''N/A or Fresh Start''
      else if u < 60 then str_int u @ '' seconds''
      else join '', '' (duration_components u))"

section \<open>A runtime for concrete evaluations\<close>

text \<open>
  The logarithm without rounding error, and a runtime that uses it. The inputs evaluated
  with this runtime contain no string that is parsed as a number, no double and no
  container that is printed, so that its other fields are not consulted.
\<close>

definition exact_floor_log :: "int \<Rightarrow> nat" where
  "exact_floor_log x = floorlog 1024 (nat x) - 1"

definition reference_builtins :: builtins where
  "reference_builtins =
     \<lparr>float_str = (\<lambda>s. None), math_floor_log = exact_floor_log,
      repr_val = (\<lambda>v. []), comma_float = (\<lambda>x. []), json_dumps = (\<lambda>v. [])\<rparr>"

section \<open>Concrete inputs\<close>

text \<open>Two server configurations, a payload of the first server, and a network that
  answers the request for the first server with it.\<close>

definition cfg_a :: config where
  "cfg_a = \<lparr>cfg_name = ''[ncmonitor] a.example'', cfg_url = ''https://a.example'',
            cfg_token = ''token-a'', cfg_path = ''ncmonitor.txt''\<rparr>"

definition cfg_b :: config where
  "cfg_b = \<lparr>cfg_name = ''[ncmonitor_1] b.example'', cfg_url = ''https://b.example/'',
            cfg_token = ''token-b'', cfg_path = ''ncmonitor_1.txt''\<rparr>"

definition worker_a :: worker where
  "worker_a = \<lparr>w_url = ''https://a.example'', w_token = ''token-a''\<rparr>"

definition payload_a :: pyval where
  "payload_a =
     PDict [(''ocs'', PDict
       [(''meta'', PDict [(''status'', PStr ''ok'')]),
        (''data'', PDict
          [(''nextcloud'', PDict [(''system'', PDict [(''version'', PStr ''27.0.1-a'')])]),
           (''server'', PDict []),
           (''activeUsers'', PDict [])])])]"

definition net_a :: "request \<Rightarrow> net_outcome" where
  "net_a req =
     (if api_url req = ''https://a.example'' @ API_SUFFIX \<and> nc_token_header req = ''token-a''
      then NetJson payload_a else NetTimeout)"

text \<open>A network whose answer parses but whose envelope reports a failure.\<close>

definition net_status_failure :: "request \<Rightarrow> net_outcome" where
  "net_status_failure req =
     NetJson (PDict [(''ocs'', PDict [(''meta'',
       PDict [(''status'', PStr ''failure''), (''message'', PStr ''Invalid token'')])])])"

text \<open>
  The snapshot of a payload whose groups hold no field: every key carries its sentinel
  value; the two app counts are those of the app section.
\<close>

definition sentinel_updates :: "app_info \<Rightarrow> (string \<times> string) list" where
  "sentinel_updates a =
     [(''version_val'', ''N/A''), (''php_uptime_val'', ''N/A or Fresh Start''),
      (''users_val'', ''0''), (''files_val'', ''0''), (''webserver_val'', ''N/A''),
      (''cpunum_val'', ''N/A''), (''active5m_val'', ''0''), (''active1h_val'', ''0''),
      (''active24h_val'', ''0''), (''maintenance_val'', ''No''), (''failed_logins_val'', ''0''),
      (''total_shares_val'', ''0''), (''local_shares_val'', ''0''),
      (''federated_shares_val'', ''0''), (''public_shares_val'', ''0''),
      (''ram_used_val'', ''0 Bytes''), (''ram_total_val'', ''0 Bytes''),
      (''swap_used_val'', ''0 Bytes''), (''cpu1m_val'', ''0.00''), (''cpu5m_val'', ''0.00''),
      (''cpu15m_val'', ''0.00''), (''opcache_hit_rate_val'', ''0.00%''),
      (''opcache_used_val'', ''0 Bytes''), (''opcache_wasted_val'', ''0 Bytes''),
      (''storage_used_val'', ''0 Bytes (Data Missing)''),
      (''storage_free_val'', ''0 Bytes (System Freespace)''), (''db_size_val'', ''0 Bytes''),
      (''enabled_apps_val'', enabled_app_count a), (''app_count_val'', total_app_count a),
      (''php_val'', ''N/A''), (''php_memory_limit_val'', ''0 Bytes''),
      (''php_max_exec_val'', ''N/As''), (''db_type_val'', ''N/A''),
      (''db_version_val'', ''N/A''), (''db_host_val'', ''N/A'')]"



text \<open>A payload that reports more free memory than total memory.\<close>

definition payload_free_exceeds_total :: pyval where
  "payload_free_exceeds_total =
     PDict [(''ocs'', PDict
       [(''meta'', PDict [(''status'', PStr ''ok'')]),
        (''data'', PDict
          [(''nextcloud'', PDict
             [(''system'', PDict [(''mem_total'', PInt 1), (''mem_free'', PInt 2)])]),
           (''server'', PDict []),
           (''activeUsers'', PDict [])])])]"

text \<open>A payload whose storage group reports zero used and zero free bytes.\<close>

definition payload_storage_zero :: pyval where
  "payload_storage_zero =
     PDict [(''ocs'', PDict
       [(''meta'', PDict [(''status'', PStr ''ok'')]),
        (''data'', PDict
          [(''nextcloud'', PDict
             [(''system'', PDict [(''freespace'', PInt 5000)]),
              (''storage'', PDict [(''used'', PInt 0), (''free'', PInt 0)])]),
           (''server'', PDict []),
           (''activeUsers'', PDict [])])])]"

text \<open>A payload with the given app section and no field in its three groups.\<close>

definition payload_with_app :: "pyval \<Rightarrow> pyval" where
  "payload_with_app app_data =
     PDict [(''ocs'', PDict
       [(''meta'', PDict [(''status'', PStr ''ok'')]),
        (''data'', PDict
          [(''nextcloud'', PDict []), (''server'', PDict []), (''activeUsers'', PDict []),
           (''app'', app_data)])])]"

text \<open>
  The line of one enabled entry as the specification words it: the name, a colon, and
  the version behind the letter v, or N/A where there is no version.
\<close>

definition entry_line :: "string \<Rightarrow> string option \<Rightarrow> string" where
  "entry_line name version =
     name @ '': v'' @ (case version of None \<Rightarrow> ''N/A'' | Some ver \<Rightarrow> ver)"

text \<open>
  Two payloads without the \<^verbatim>\<open>activeUsers\<close> group: one whose storage group reports zero
  used and zero free bytes, one whose app section has a string where the list of enabled
  apps belongs.
\<close>

definition payload_storage_zero_no_active_users :: pyval where
  "payload_storage_zero_no_active_users =
     PDict [(''ocs'', PDict
       [(''meta'', PDict [(''status'', PStr ''ok'')]),
        (''data'', PDict
          [(''nextcloud'', PDict
             [(''system'', PDict [(''freespace'', PInt 5000)]),
              (''storage'', PDict [(''used'', PInt 0), (''free'', PInt 0)])]),
           (''server'', PDict [])])])]"

definition payload_bad_app_no_active_users :: pyval where
  "payload_bad_app_no_active_users =
     PDict [(''ocs'', PDict
       [(''meta'', PDict [(''status'', PStr ''ok'')]),
        (''data'', PDict
          [(''nextcloud'', PDict []),
           (''server'', PDict []),
           (''app'', PDict [(''enabled'', PStr ''files''), (''installed'', PList [])])])])]"

text \<open>An app section with two enabled apps, a bare name and a record, and three installed.\<close>

definition app_two_enabled :: pyval where
  "app_two_enabled =
     PDict [(''enabled'',
              PList [PStr ''notes'',
                     PDict [(''id'', PStr ''files''), (''version'', PStr ''1.2.3'')]]),
            (''installed'', PList [PStr ''notes'', PStr ''files'', PStr ''mail''])]"

text \<open>
  A payload that reports the given memory (in kilobytes), storage and free-space numbers
  and nothing else.
\<close>

definition payload_numbers :: "int \<Rightarrow> int \<Rightarrow> int \<Rightarrow> int \<Rightarrow> int \<Rightarrow> pyval" where
  "payload_numbers total_kb free_kb used free freespace =
     PDict [(''ocs'', PDict
       [(''meta'', PDict [(''status'', PStr ''ok'')]),
        (''data'', PDict
          [(''nextcloud'', PDict
             [(''system'', PDict [(''mem_total'', PInt total_kb), (''mem_free'', PInt free_kb),
                                  (''freespace'', PInt freespace)]),
              (''storage'', PDict [(''used'', PInt used), (''free'', PInt free)])]),
           (''server'', PDict []),
           (''activeUsers'', PDict [])])])]"

section \<open>Durations\<close>

lemma float_of_int_exact: "\<bar>n\<bar> \<le> 2 ^ 53 \<Longrightarrow> float_of_int n = Inr (Fin n 0)"
  unfolding float_of_int_def by (rule if_P)

lemma safe_int_PInt: "\<bar>n\<bar> \<le> 2 ^ 53 \<Longrightarrow> safe_int B (PInt n) = Inr n"
  by (simp add: safe_int_def float_of_int_exact ebind_def mult_sgn_abs)

text \<open>
  The values of \<^verbatim>\<open>safe_int\<close> outside the integers: \<^verbatim>\<open>None\<close>, the empty string, a string
  that is no number, a list and a mapping give 0, a finite float is truncated toward zero,
  a NaN gives 0 (the \<^verbatim>\<open>ValueError\<close> of \<^verbatim>\<open>int\<close> is caught), and an infinity raises
  \<^verbatim>\<open>OverflowError\<close>, which is not caught.
\<close>

lemma safe_int_values:
  "safe_int B PNone = Inr 0"
  "safe_int B (PStr []) = Inr 0"
  "float_str B s = None \<Longrightarrow> safe_int B (PStr s) = Inr 0"
  "safe_int B (PList xs) = Inr 0"
  "safe_int B (PDict kvs) = Inr 0"
  "safe_int B (PBool b) = Inr (if b then 1 else 0)"
  "safe_int B (PFloat (Fin m k)) = Inr (sgn m * (\<bar>m\<bar> div 2 ^ k))"
  "safe_int B (PFloat NaN) = Inr 0"
  "safe_int B (PFloat PosInf) = Inl OverflowError"
  "safe_int B (PFloat NegInf) = Inl OverflowError"
  by (simp_all add: safe_int_def ebind_def)

lemma td_loop_step:
  "td_loop ((name, c) # rest) s r =
     td_loop rest (s mod c) (r @ (if s div c \<noteq> 0 then [unit_text (s div c) name] else []))"
proof (cases "s div c = 0")
  case True
  then have "s mod c = s"
    by (metis add.left_neutral mult_zero_right mult_div_mod_eq)
  with True show ?thesis by simp
next
  case False
  have "s - s div c * c = s mod c"
    by (simp add: minus_div_mult_eq_mod)
  with False show ?thesis by (simp add: Let_def)
qed

lemma rstrip_units:
  "rstrip CHR ''s'' ''years'' = ''year''" "rstrip CHR ''s'' ''days'' = ''day''"
  "rstrip CHR ''s'' ''hours'' = ''hour''" "rstrip CHR ''s'' ''minutes'' = ''minute''"
  by (simp_all add: rstrip_def)

lemma unit_text_component:
  "unit_text v ''years'' = unit_component (v, ''year'')"
  "unit_text v ''days'' = unit_component (v, ''day'')"
  "unit_text v ''hours'' = unit_component (v, ''hour'')"
  "unit_text v ''minutes'' = unit_component (v, ''minute'')"
  by (simp_all add: unit_text_def unit_component_def rstrip_units)


lemma td_loop_intervals:
  "td_loop intervals s [] =
     (s mod 31536000 mod 86400 mod 3600 mod 60,
      map unit_component (filter (\<lambda>c. fst c \<noteq> 0) (duration_units s)))"
  apply (simp only: intervals_def)
  apply (subst td_loop_step)
  apply (subst td_loop_step)
  apply (subst td_loop_step)
  apply (subst td_loop_step)
  apply (simp only: td_loop.simps(1) unit_text_component duration_units_def)
  apply (simp only: list.map filter.simps fst_conv append_Nil Pair_inject simp_thms)
  apply (auto simp only: append.simps list.map simp_thms split: if_splits)
  done


lemma digit_char_mem: "d < 10 \<Longrightarrow> digit_char d \<in> set ''0123456789''"
  unfolding digit_char_def by (rule nth_mem) simp

lemma str_nat_chars: "set (str_nat n) \<subseteq> set ''0123456789''"
proof (induction n rule: str_nat.induct)
  case (1 n)
  show ?case
  proof (cases "n < 10")
    case True
    then have "str_nat n = [digit_char n]"
      by (subst str_nat.simps) simp
    with True digit_char_mem[of n] show ?thesis
      by (simp only: list.set) blast
  next
    case False
    then have e: "str_nat n = str_nat (n div 10) @ [digit_char (n mod 10)]"
      by (subst str_nat.simps) simp
    have "digit_char (n mod 10) \<in> set ''0123456789''"
      by (rule digit_char_mem) simp
    with False 1 show ?thesis
      unfolding e by (simp only: set_append list.set) blast
  qed
qed

lemma str_nat_nonempty: "str_nat n \<noteq> []"
  by (subst str_nat.simps) simp

lemma str_nat_no_J: "CHR ''J'' \<notin> set (str_nat n)"
proof
  assume "CHR ''J'' \<in> set (str_nat n)"
  with str_nat_chars have "CHR ''J'' \<in> set ''0123456789''" by blast
  then show False by simp
qed

lemma str_int_no_J: "CHR ''J'' \<notin> set (str_int i)"
  by (simp add: str_int_def str_nat_no_J)

lemma set_join: "set (join sep xs) \<subseteq> set sep \<union> (\<Union>x\<in>set xs. set x)"
  by (induction sep xs rule: join.induct) auto

lemma join_nonempty: "x \<noteq> [] \<Longrightarrow> join sep (x # xs) \<noteq> []"
  by (cases xs) auto

lemma unit_component_nonempty: "unit_component c \<noteq> []"
  by (simp add: unit_component_def)

lemma units_empty_iff:
  assumes "0 < n"
  shows "filter (\<lambda>c. fst c \<noteq> 0) (duration_units n) = [] \<longleftrightarrow> n < 60"
proof
  assume "n < 60"
  with assms show "filter (\<lambda>c. fst c \<noteq> 0) (duration_units n) = []"
    by (simp add: duration_units_def)
next
  assume e: "filter (\<lambda>c. fst c \<noteq> 0) (duration_units n) = []"
  then have 1: "n div 31536000 = 0" and 2: "n mod 31536000 div 86400 = 0"
    and 3: "n mod 31536000 mod 86400 div 3600 = 0"
    and 4: "n mod 31536000 mod 86400 mod 3600 div 60 = 0"
    by (simp_all add: duration_units_def split: if_splits)
  from 1 assms have a: "n < 31536000" by (simp add: zdiv_eq_0_iff)
  with assms have a': "n mod 31536000 = n" by (intro mod_pos_pos_trivial) simp_all
  from 2 assms have b: "n < 86400" unfolding a' by (simp add: zdiv_eq_0_iff)
  with assms have b': "n mod 86400 = n" by (intro mod_pos_pos_trivial) simp_all
  from 3 assms have c: "n < 3600" unfolding a' b' by (simp add: zdiv_eq_0_iff)
  with assms have c': "n mod 3600 = n" by (intro mod_pos_pos_trivial) simp_all
  from 4 assms show "n < 60" unfolding a' b' c' by (simp add: zdiv_eq_0_iff)
qed


lemma format_timedelta_text:
  assumes "safe_int B v = Inr n"
  shows "format_timedelta B v = Inr (duration_text n)"
proof (cases "n \<le> 0")
  case True
  with assms show ?thesis
    by (simp add: format_timedelta_def ebind_def duration_text_def)
next
  case pos: False
  let ?r = "map unit_component (filter (\<lambda>c. fst c \<noteq> 0) (duration_units n))"
  show ?thesis
  proof (cases "n < 60")
    case True
    with pos have r: "?r = []" by (simp add: units_empty_iff)
    from True pos have "n mod 31536000 mod 86400 mod 3600 mod 60 = n" by simp
    with assms pos True r show ?thesis
      by (simp add: format_timedelta_def ebind_def duration_text_def td_loop_intervals)
  next
    case False
    with pos have "?r \<noteq> []" by (simp add: units_empty_iff)
    then obtain x xs where r: "?r = x # xs" by (cases ?r) auto
    then have "x \<in> set ?r" by simp
    then have "x \<noteq> []" using unit_component_nonempty by auto
    then have j: "join '', '' (take 3 ?r) \<noteq> []"
      unfolding r by (simp add: join_nonempty)
    from assms pos False r j show ?thesis
      by (simp add: format_timedelta_def ebind_def duration_text_def td_loop_intervals
          duration_components_def)
  qed
qed


lemma duration_components_length:
  assumes "60 \<le> n"
  shows "1 \<le> length (duration_components n) \<and> length (duration_components n) \<le> 3"
proof -
  from assms have "filter (\<lambda>c. fst c \<noteq> 0) (duration_units n) \<noteq> []"
    using units_empty_iff[of n] by simp
  then have "1 \<le> length (filter (\<lambda>c. fst c \<noteq> 0) (duration_units n))"
    by (cases "filter (\<lambda>c. fst c \<noteq> 0) (duration_units n)") simp_all
  then show ?thesis by (simp add: duration_components_def)
qed

lemma unit_component_no_J:
  assumes "c \<in> set (duration_units n)"
  shows "CHR ''J'' \<notin> set (unit_component c)"
proof -
  from assms have "snd c \<in> {''year'', ''day'', ''hour'', ''minute''}"
    by (auto simp: duration_units_def)
  then have "CHR ''J'' \<notin> set (snd c)" by auto
  then show ?thesis by (simp add: unit_component_def str_int_no_J)
qed

lemma duration_text_no_J: "CHR ''J'' \<notin> set (duration_text n)"
proof -
  have "CHR ''J'' \<notin> set (join '', '' (duration_components n))"
  proof
    assume "CHR ''J'' \<in> set (join '', '' (duration_components n))"
    with set_join[of "'', ''" "duration_components n"]
    have "CHR ''J'' \<in> set '', '' \<union> (\<Union>x\<in>set (duration_components n). set x)" by blast
    then obtain x where x: "x \<in> set (duration_components n)" "CHR ''J'' \<in> set x" by auto
    from x(1) have "x \<in> set (map unit_component (filter (\<lambda>c. fst c \<noteq> 0) (duration_units n)))"
      unfolding duration_components_def by (rule in_set_takeD)
    then obtain c where "c \<in> set (duration_units n)" "x = unit_component c" by auto
    with x(2) unit_component_no_J show False by blast
  qed
  then show ?thesis by (simp add: duration_text_def str_int_no_J)
qed

text \<open>
  The results of \<^verbatim>\<open>format_timedelta\<close> by the integer \<open>n\<close> its input is coerced to: the
  text ``N/A or Fresh Start'' when \<open>n \<le> 0\<close>, the text ``\<open>n\<close> seconds'' when
  \<open>0 < n < 60\<close>, and one to three unit components joined by a comma and a space when
  \<open>n \<ge> 60\<close>. When the coercion raises, the function raises the same exception. The
  fourth literal of the function, ``Just started'', is returned for no input.
\<close>

lemma format_timedelta_shapes:
  "(\<forall>n. safe_int B v = Inr n \<longrightarrow>
      (n \<le> 0 \<longrightarrow> format_timedelta B v = Inr ''N/A or Fresh Start'') \<and>
      (0 < n \<and> n < 60 \<longrightarrow> format_timedelta B v = Inr (str_int n @ '' seconds'')) \<and>
      (60 \<le> n \<longrightarrow>
         format_timedelta B v = Inr (join '', '' (duration_components n)) \<and>
         1 \<le> length (duration_components n) \<and> length (duration_components n) \<le> 3)) \<and>
   (\<forall>e. safe_int B v = Inl e \<longrightarrow> format_timedelta B v = Inl e) \<and>
   format_timedelta B v \<noteq> Inr ''Just started''"
proof (intro conjI allI impI)
  fix n assume "safe_int B v = Inr n"
  then have t: "format_timedelta B v = Inr (duration_text n)" by (rule format_timedelta_text)
  { assume "n \<le> 0" then show "format_timedelta B v = Inr ''N/A or Fresh Start''"
      by (simp add: t duration_text_def) }
  { assume "0 < n \<and> n < 60" then show "format_timedelta B v = Inr (str_int n @ '' seconds'')"
      by (simp add: t duration_text_def) }
  { assume "60 \<le> n" then show "format_timedelta B v = Inr (join '', '' (duration_components n))"
      by (simp add: t duration_text_def) }
  { assume "60 \<le> n" then show "1 \<le> length (duration_components n)"
      using duration_components_length by blast }
  { assume "60 \<le> n" then show "length (duration_components n) \<le> 3"
      using duration_components_length by blast }
next
  fix e assume "safe_int B v = Inl e"
  then show "format_timedelta B v = Inl e" by (simp add: format_timedelta_def ebind_def)
next
  show "format_timedelta B v \<noteq> Inr ''Just started''"
  proof (cases "safe_int B v")
    case (Inl e)
    then show ?thesis by (simp add: format_timedelta_def ebind_def)
  next
    case (Inr n)
    then have "format_timedelta B v = Inr (duration_text n)" by (rule format_timedelta_text)
    moreover have "duration_text n \<noteq> ''Just started''"
      using duration_text_no_J[of n] by auto
    ultimately show ?thesis by simp
  qed
qed

lemma duration_components_3700: "duration_components 3700 = [''1 hour'', ''1 minute'']"
  by code_simp

lemma format_timedelta_shapes_3700:
  "safe_int reference_builtins (PInt 3700) = Inr 3700 \<and> (60::int) \<le> 3700 \<and>
   format_timedelta reference_builtins (PInt 3700) = Inr ''1 hour, 1 minute'' \<and>
   length (duration_components 3700) = 2 \<and>
   format_timedelta reference_builtins (PInt 3700) \<noteq> Inr ''Just started''"
proof -
  have s: "safe_int reference_builtins (PInt 3700) = Inr 3700"
    by (rule safe_int_PInt) simp
  from format_timedelta_shapes[of reference_builtins "PInt 3700"] s show ?thesis
    by (simp add: duration_components_3700)
qed


lemma duration_text_3700: "duration_text 3700 = ''1 hour, 1 minute''"
  by code_simp

text \<open>
  Claim C6. The uptime is the current time minus the start time of the PHP process when
  the start time is positive and the difference is positive, and 0 otherwise. Its
  rendering is the text the specification describes: ``N/A or Fresh Start'' for 0, the
  number of seconds below one minute, and from one minute on the first three non-zero
  units among years, days, hours and minutes, singular or plural, joined by a comma and
  a space. The current time is a POSIX time stamp, within the range where the conversion
  of an integer to a double and back is the identity.
\<close>

theorem uptime_rendering:
  assumes "current_time_ts \<le> 2 ^ 53"
  shows "uptime_seconds start_time_ts current_time_ts =
           (if start_time_ts > 0 \<and> current_time_ts - start_time_ts > 0
            then current_time_ts - start_time_ts else 0) \<and>
         format_timedelta B (PInt (uptime_seconds start_time_ts current_time_ts)) =
           Inr (duration_text (uptime_seconds start_time_ts current_time_ts))"
proof -
  from assms have "\<bar>uptime_seconds start_time_ts current_time_ts\<bar> \<le> 2 ^ 53"
    by (simp add: uptime_seconds_def)
  then have "safe_int B (PInt (uptime_seconds start_time_ts current_time_ts)) =
      Inr (uptime_seconds start_time_ts current_time_ts)"
    by (rule safe_int_PInt)
  then show ?thesis
    by (simp add: format_timedelta_text) (simp add: uptime_seconds_def)
qed

theorem uptime_rendering_witness:
  "(4700::int) \<le> 2 ^ 53 \<and> uptime_seconds 1000 4700 = 3700 \<and>
   format_timedelta reference_builtins (PInt (uptime_seconds 1000 4700)) = Inr ''1 hour, 1 minute''"
proof -
  have h: "(4700::int) \<le> 2 ^ 53" by simp
  have u: "uptime_seconds 1000 4700 = 3700" by (simp add: uptime_seconds_def)
  from uptime_rendering[OF h, of 1000 reference_builtins] h show ?thesis
    by (simp only: u duration_text_3700) simp
qed


section \<open>Fetch cycles\<close>

lemma fetch_a:
  "fetch_metrics reference_builtins net_a (w_url worker_a) (w_token worker_a) = Inr payload_a"
  by code_simp

lemma normalize_a_ok:
  "(case normalize_payload reference_builtins 0 payload_a of Inr s \<Rightarrow> True | Inl e \<Rightarrow> False)"
  by code_simp

text \<open>
  Claim C2, as the code has it. \<^verbatim>\<open>start_fetch\<close> has no guard: every call, from the
  timer, from the refresh button or from \<^verbatim>\<open>apply_new_config\<close>, hands one more worker
  for the current URL and token to the thread pool, whatever is outstanding. Two calls in
  immediate succession dispatch two fetches; nothing is dropped.
\<close>

theorem start_fetch_always_dispatches:
  "thread_pool (start_fetch s) = thread_pool s @ [\<lparr>w_url = nc_url s, w_token = nc_token s\<rparr>] \<and>
   length (thread_pool (start_fetch (start_fetch s))) = length (thread_pool s) + 2"
  by (simp add: start_fetch_def)

text \<open>
  Claim C2 fails as stated: after \<^verbatim>\<open>__init__\<close> the first fetch is outstanding, and a
  further \<^verbatim>\<open>start_fetch\<close> puts a second worker for the same server into the pool.
\<close>

theorem second_fetch_dispatched:
  "thread_pool (init_app cfg_a) = [worker_a] \<and>
   thread_pool (start_fetch (init_app cfg_a)) = [worker_a, worker_a]"
  by code_simp

text \<open>
  Claim C1, as the code has it. \<^verbatim>\<open>apply_new_config\<close> neither cancels nor marks the
  workers that are outstanding: it adds a worker for the new configuration and leaves the
  others in the pool. A worker carries no configuration identity that the slots compare:
  when any worker finishes with a payload that is processed, after a switch to any
  configuration, the labels, the app list and the raw text are set from that payload,
  while the active configuration stays the new one.
\<close>

theorem completion_applied_after_switch:
  assumes "fetch_metrics B net (w_url w) (w_token w) = Inr data"
    and "normalize_payload B t data = Inr snap"
  shows "thread_pool (apply_new_config c s) =
           thread_pool s @ [\<lparr>w_url = cfg_url c, w_token = cfg_token c\<rparr>] \<and>
         current_config (worker_finished B net t w (apply_new_config c s)) = c \<and>
         metric_labels (worker_finished B net t w (apply_new_config c s)) =
           set_labels (updates snap) (map (\<lambda>(k, v). (k, ''N/A'')) (metric_labels s)) \<and>
         app_list_text (worker_finished B net t w (apply_new_config c s)) = app_lines_text snap \<and>
         raw_data_text (worker_finished B net t w (apply_new_config c s)) = json_dumps B data \<and>
         status_bar (worker_finished B net t w (apply_new_config c s)) = LastUpdated"
  using assms
  by (simp add: worker_finished_def update_gui_metrics_def apply_new_config_def start_fetch_def
      Let_def)

theorem completion_applied_after_switch_witness:
  "fetch_metrics reference_builtins net_a (w_url worker_a) (w_token worker_a) = Inr payload_a \<and>
   (\<exists>snap. normalize_payload reference_builtins 0 payload_a = Inr snap \<and>
      current_config (worker_finished reference_builtins net_a 0 worker_a
        (apply_new_config cfg_b (init_app cfg_a))) = cfg_b \<and>
      metric_labels (worker_finished reference_builtins net_a 0 worker_a
        (apply_new_config cfg_b (init_app cfg_a))) =
      set_labels (updates snap) (map (\<lambda>(k, v). (k, ''N/A'')) (metric_labels (init_app cfg_a))))"
proof -
  from normalize_a_ok obtain snap where
    n: "normalize_payload reference_builtins 0 payload_a = Inr snap"
    by (cases "normalize_payload reference_builtins 0 payload_a") auto
  from completion_applied_after_switch[OF fetch_a n, of cfg_b "init_app cfg_a"] fetch_a n
  show ?thesis by blast
qed

text \<open>
  Claim C1 fails as stated: the first server's fetch is outstanding when the second
  configuration is applied; every label then reads N/A; when the first server's fetch
  completes, the version label shows the first server's version while the second
  configuration is the active one.
\<close>

theorem stale_completion_applied:
  "current_config (worker_finished reference_builtins net_a 0 worker_a
      (apply_new_config cfg_b (init_app cfg_a))) = cfg_b \<and>
   worker_a \<in> set (thread_pool (apply_new_config cfg_b (init_app cfg_a))) \<and>
   map_of (metric_labels (apply_new_config cfg_b (init_app cfg_a))) ''version_val'' = Some ''N/A'' \<and>
   map_of (metric_labels (worker_finished reference_builtins net_a 0 worker_a
      (apply_new_config cfg_b (init_app cfg_a)))) ''version_val'' = Some ''27.0.1-a''"
  by code_simp

section \<open>The envelope status\<close>

lemma suffix_appendI2: "suffix ys (xs @ ys)"
  by (simp add: suffix_def)

text \<open>
  Claim C9, as the code has it. When the response parses, its \<^verbatim>\<open>ocs\<close> and
  \<^verbatim>\<open>meta\<close> sections are dictionaries (or absent) and the status is not ``ok'',
  \<^verbatim>\<open>fetch_metrics\<close> fails with a message that ends with ``API Status Error: ''
  followed by the message the server supplied, or by ``Unknown error'' when it supplied
  none.
\<close>

theorem api_status_error_message:
  assumes "net \<lparr>api_url = rstrip CHR ''/'' u @ API_SUFFIX, nc_token_header = tok\<rparr> = NetJson data"
    and "dict_get data ''ocs'' (PDict []) = Inr ocs"
    and "dict_get ocs ''meta'' (PDict []) = Inr meta"
    and "dict_get meta ''status'' PNone = Inr st"
    and "st \<noteq> PStr ''ok''"
    and "dict_get meta ''message'' (PStr ''Unknown error'') = Inr msg"
  shows "\<exists>m. fetch_metrics B net u tok = Inl m \<and>
             suffix (''API Status Error: '' @ py_str B msg) m"
  using assms
  by (simp add: fetch_metrics_def check_envelope_def get_or_text_def ebind_def suffix_appendI2
      del: append.simps)

theorem api_status_error_message_witness:
  "net_status_failure \<lparr>api_url = rstrip CHR ''/'' ''https://a.example'' @ API_SUFFIX,
                       nc_token_header = ''token-a''\<rparr> =
     NetJson (PDict [(''ocs'', PDict [(''meta'',
       PDict [(''status'', PStr ''failure''), (''message'', PStr ''Invalid token'')])])]) \<and>
   (\<exists>m. fetch_metrics reference_builtins net_status_failure ''https://a.example'' ''token-a'' = Inl m \<and>
        suffix ''API Status Error: Invalid token'' m)"
proof -
  let ?meta = "PDict [(''status'', PStr ''failure''), (''message'', PStr ''Invalid token'')]"
  let ?ocs = "PDict [(''meta'', ?meta)]"
  let ?data = "PDict [(''ocs'', ?ocs)]"
  have 1: "net_status_failure \<lparr>api_url = rstrip CHR ''/'' ''https://a.example'' @ API_SUFFIX,
                       nc_token_header = ''token-a''\<rparr> = NetJson ?data"
    by (simp add: net_status_failure_def)
  have 2: "dict_get ?data ''ocs'' (PDict []) = Inr ?ocs" by simp
  have 3: "dict_get ?ocs ''meta'' (PDict []) = Inr ?meta" by simp
  have 4: "dict_get ?meta ''status'' PNone = Inr (PStr ''failure'')" by simp
  have 5: "PStr ''failure'' \<noteq> PStr ''ok''" by simp
  have 6: "dict_get ?meta ''message'' (PStr ''Unknown error'') = Inr (PStr ''Invalid token'')" by simp
  from api_status_error_message[where net = net_status_failure and u = "''https://a.example''"
      and tok = "''token-a''" and B = reference_builtins, OF 1 2 3 4 5 6] 1
  show ?thesis by simp
qed

text \<open>
  Claim C9 fails as stated: the server's message is ``Invalid token'', and the message
  of the failure is not that text but that text behind two prefixes.
\<close>

theorem api_status_error_wrapped:
  "fetch_metrics reference_builtins net_status_failure ''https://a.example'' ''token-a'' =
     Inl ''An unexpected error occurred: API Status Error: Invalid token''"
  by code_simp

section \<open>Processing a payload: totality\<close>

lemma ebind_Inr [simp]: "ebind (Inr x) f = f x"
  by (simp add: ebind_def)

lemma ebind_Inl [simp]: "ebind (Inl e) f = Inl e"
  by (simp add: ebind_def)

lemma ebind_eq_Inr: "ebind m f = Inr y \<longleftrightarrow> (\<exists>x. m = Inr x \<and> f x = Inr y)"
  by (cases m) simp_all






lemma safe_int_0 [simp]: "safe_int B (PInt 0) = Inr 0"
  by (rule safe_int_PInt) simp

lemma safe_int_None [simp]: "safe_int B PNone = Inr 0"
  by (simp add: safe_int_def)

lemma format_bytes_0 [simp]: "format_bytes B (PInt 0) = Inr ''0 Bytes''"
  by (simp add: format_bytes_def)

lemma format_timedelta_0 [simp]: "format_timedelta B (PInt 0) = Inr ''N/A or Fresh Start''"
  using format_timedelta_text[OF safe_int_0, of B] by (simp add: duration_text_def)

lemma uptime_seconds_0 [simp]: "uptime_seconds 0 t = 0"
  by (simp add: uptime_seconds_def)

lemma str_int_0: "str_int 0 = ''0''"
  by code_simp

lemma group_int_0: "group_int 0 = ''0''"
  by code_simp

lemma fmt_2f_ratio_0: "fmt_2f_ratio 0 1 = ''0.00''"
  by code_simp

lemma float_of_int_0: "float_of_int 0 = Inr (Fin 0 0)"
  by (rule float_of_int_exact) simp

lemma system_health_empty:
  "system_health B (PDict []) = Inr \<lparr>ram_total = 0, ram_used = 0, swap_total = 0, swap_used = 0\<rparr>"
  by (simp add: system_health_def get_int_def)

lemma cpu_load_empty: "cpu_load (PDict []) = Inr (PInt 0, PInt 0, PInt 0)"
  by (simp add: cpu_load_def cpu_load_at_def)

lemma storage_displays_empty:
  "storage_displays B (PDict []) (PDict []) =
     Inr (''0 Bytes (Data Missing)'', ''0 Bytes (System Freespace)'')"
  by (simp add: storage_displays_def get_int_def)

lemma extract_values_empty:
  assumes "ocs_data_item data ''nextcloud'' = Inr (PDict [])"
    and "ocs_data_item data ''server'' = Inr (PDict [])"
    and "ocs_data_item data ''activeUsers'' = Inr (PDict [])"
    and "ocs_data_get data ''app'' PNone = Inr ad"
  shows "extract_values B t data =
     Inr \<lparr>server_data = PDict [], active_users = PDict [], system_info = PDict [],
          db_info = PDict [], php_info = PDict [], storage_data = PDict [], shares = PDict [],
          sys_health = \<lparr>ram_total = 0, ram_used = 0, swap_total = 0, swap_used = 0\<rparr>,
          cpu_loads = (PInt 0, PInt 0, PInt 0),
          opcache_hit_rate = PFloat (Fin 0 0), opcache_used_memory = PInt 0,
          wasted_memory = PInt 0, uptime_display = ''N/A or Fresh Start'',
          storage_used_display = ''0 Bytes (Data Missing)'',
          storage_free_display = ''0 Bytes (System Freespace)'',
          apps = app_summary B ad\<rparr>"
  using assms
  by (simp add: extract_values_def system_health_empty cpu_load_empty storage_displays_empty
      get_int_def)

lemma normalize_empty_groups:
  assumes "ocs_data_item data ''nextcloud'' = Inr (PDict [])"
    and "ocs_data_item data ''server'' = Inr (PDict [])"
    and "ocs_data_item data ''activeUsers'' = Inr (PDict [])"
    and "ocs_data_get data ''app'' PNone = Inr ad"
  shows "normalize_payload B t data =
     Inr \<lparr>updates = sentinel_updates (app_summary B ad),
          app_lines_text = enabled_app_lines_str (app_summary B ad)\<rparr>"
  unfolding normalize_payload_def extract_values_empty[OF assms]
  by (simp add: update_entries_def sentinel_updates_def get_str_def get_int_def str_int_0
      group_int_0 float_of_int_0 fmt_2f_ratio_0)








section \<open>Processing a payload: memory, storage and apps\<close>

lemma normalize_payload_Inr:
  assumes "normalize_payload B t data = Inr snap"
  shows "\<exists>x. extract_values B t data = Inr x \<and>
           collect (update_entries B x) = Inr (updates snap) \<and>
           app_lines_text snap = enabled_app_lines_str (apps x)"
  using assms by (auto simp: normalize_payload_def ebind_eq_Inr)

lemma collect_map_of:
  "collect xs = Inr ys \<Longrightarrow> map_of xs k = Some r \<Longrightarrow> \<exists>v. r = Inr v \<and> map_of ys k = Some v"
proof (induction xs arbitrary: ys)
  case Nil
  then show ?case by simp
next
  case (Cons a xs)
  obtain k' v' where a: "a = (k', v')" by (cases a)
  from Cons.prems(1) obtain s zs where s: "v' = Inr s" "collect xs = Inr zs" "ys = (k', s) # zs"
    unfolding a by (auto simp: ebind_eq_Inr)
  show ?case
  proof (cases "k' = k")
    case True
    with Cons.prems(2) a s show ?thesis by simp
  next
    case False
    with Cons.prems(2) a have "map_of xs k = Some r" by simp
    from Cons.IH[OF s(2) this] False s(3) show ?thesis by simp
  qed
qed

lemma update_entries_computed:
  "map_of (update_entries B x) ''storage_used_val'' = Some (Inr (storage_used_display x))"
  "map_of (update_entries B x) ''storage_free_val'' = Some (Inr (storage_free_display x))"
  "map_of (update_entries B x) ''enabled_apps_val'' = Some (Inr (enabled_app_count (apps x)))"
  "map_of (update_entries B x) ''app_count_val'' = Some (Inr (total_app_count (apps x)))"
  "map_of (update_entries B x) ''ram_used_val'' =
     Some (format_bytes B (PInt (ram_used (sys_health x))))"
  "map_of (update_entries B x) ''ram_total_val'' =
     Some (format_bytes B (PInt (ram_total (sys_health x))))"
  "map_of (update_entries B x) ''swap_used_val'' =
     Some (format_bytes B (PInt (swap_used (sys_health x))))"
  by (simp_all add: update_entries_def)

lemma extract_values_Inr:
  assumes "extract_values B t data = Inr x"
  shows "\<exists>nc. ocs_data_item data ''nextcloud'' = Inr nc \<and>
           dict_get nc ''system'' (PDict []) = Inr (system_info x) \<and>
           dict_get nc ''storage'' (PDict []) = Inr (storage_data x)"
    and "system_health B (system_info x) = Inr (sys_health x)"
    and "storage_displays B (storage_data x) (system_info x) =
           Inr (storage_used_display x, storage_free_display x)"
    and "\<exists>ad. ocs_data_get data ''app'' PNone = Inr ad \<and> apps x = app_summary B ad"
  using assms by (auto simp: extract_values_def ebind_eq_Inr)


lemma system_health_Inr:
  assumes "system_health B si = Inr h"
  shows "\<exists>tk fk stk sfk.
           get_int B si ''mem_total'' (PInt 0) = Inr tk \<and>
           get_int B si ''mem_free'' (PInt 0) = Inr fk \<and>
           get_int B si ''swap_total'' (PInt 0) = Inr stk \<and>
           get_int B si ''swap_free'' (PInt 0) = Inr sfk \<and>
           ram_total h = tk * 1024 \<and> ram_used h = (tk - fk) * 1024 \<and>
           swap_total h = stk * 1024 \<and> swap_used h = (stk - sfk) * 1024"
  using assms by (auto simp: system_health_def ebind_eq_Inr KB_TO_BYTES_def)

lemma storage_displays_Inr:
  assumes "storage_displays B sd si = Inr (su, sf)"
  shows "\<exists>u f. get_int B sd ''used'' PNone = Inr u \<and> get_int B sd ''free'' PNone = Inr f \<and>
     (u = 0 \<and> f = 0 \<longrightarrow> su = ''0 Bytes (Data Missing)'' \<and>
        (\<exists>fs s. get_int B si ''freespace'' PNone = Inr fs \<and> format_bytes B (PInt fs) = Inr s \<and>
           sf = s @ '' (System Freespace)'')) \<and>
     (u \<noteq> 0 \<or> f \<noteq> 0 \<longrightarrow>
        format_bytes B (PInt u) = Inr su \<and> format_bytes B (PInt f) = Inr sf)"
  using assms by (auto simp: storage_displays_def ebind_eq_Inr split: if_splits)

lemma normalize_free_exceeds_total:
  "(case normalize_payload reference_builtins 0 payload_free_exceeds_total of
      Inr snap \<Rightarrow> map_of (updates snap) ''ram_used_val'' = Some ''-1024.00 Bytes'' \<and>
                  map_of (updates snap) ''ram_total_val'' = Some ''1.00 KB''
    | Inl e \<Rightarrow> False)"
  by code_simp

lemma normalize_storage_zero:
  "(case normalize_payload reference_builtins 0 payload_storage_zero of
      Inr snap \<Rightarrow>
        map_of (updates snap) ''storage_used_val'' = Some ''0 Bytes (Data Missing)'' \<and>
        map_of (updates snap) ''storage_free_val'' = Some ''4.88 KB (System Freespace)''
    | Inl e \<Rightarrow> False)"
  by code_simp

lemma app_summary_two_enabled:
  "app_summary reference_builtins app_two_enabled =
     \<lparr>enabled_app_count = ''2'', total_app_count = ''3'',
      enabled_app_lines_str = ''files: v1.2.3'' @ [CHR 0x0A] @ ''notes: vN/A''\<rparr>"
  by code_simp

text \<open>
  Processing returns a snapshot for every payload that reports only memory, storage and
  free-space numbers, when the numbers are exact as doubles.
\<close>

lemma format_bytes_PInt_returns:
  assumes "\<bar>n\<bar> \<le> 2 ^ 53"
  shows "\<exists>s. format_bytes B (PInt n) = Inr s"
  by (simp add: format_bytes_def safe_int_PInt[OF assms] Let_def)

lemma normalize_payload_numbers:
  assumes "0 \<le> tk" "tk \<le> 2 ^ 42" "0 \<le> fk" "fk \<le> 2 ^ 42"
    and "\<bar>u\<bar> \<le> 2 ^ 53" "\<bar>f\<bar> \<le> 2 ^ 53" "\<bar>fs\<bar> \<le> 2 ^ 53"
  shows "\<exists>snap. normalize_payload B t (payload_numbers tk fk u f fs) = Inr snap"
proof -
  let ?si = "PDict [(''mem_total'', PInt tk), (''mem_free'', PInt fk), (''freespace'', PInt fs)]"
  let ?sd = "PDict [(''used'', PInt u), (''free'', PInt f)]"
  from assms have b: "\<bar>tk\<bar> \<le> 2 ^ 53" "\<bar>fk\<bar> \<le> 2 ^ 53" by simp_all
  have h: "system_health B ?si =
      Inr \<lparr>ram_total = tk * 1024, ram_used = (tk - fk) * 1024, swap_total = 0, swap_used = 0\<rparr>"
    by (simp add: system_health_def get_int_def safe_int_PInt[OF b(1)] safe_int_PInt[OF b(2)]
        KB_TO_BYTES_def)
  obtain su where su: "format_bytes B (PInt u) = Inr su"
    using format_bytes_PInt_returns[OF assms(5)] by blast
  obtain sf where sf: "format_bytes B (PInt f) = Inr sf"
    using format_bytes_PInt_returns[OF assms(6)] by blast
  obtain sfs where sfs: "format_bytes B (PInt fs) = Inr sfs"
    using format_bytes_PInt_returns[OF assms(7)] by blast
  have "\<exists>st. storage_displays B ?sd ?si = Inr st"
    by (simp add: storage_displays_def get_int_def safe_int_PInt[OF assms(5)]
        safe_int_PInt[OF assms(6)] safe_int_PInt[OF assms(7)] su sf sfs)
  then obtain st where st: "storage_displays B ?sd ?si = Inr st" by blast
  from assms have "\<bar>tk * 1024\<bar> \<le> 2 ^ 53" "\<bar>(tk - fk) * 1024\<bar> \<le> 2 ^ 53" by simp_all
  then obtain rt ru where rt: "format_bytes B (PInt (tk * 1024)) = Inr rt"
    and ru: "format_bytes B (PInt ((tk - fk) * 1024)) = Inr ru"
    using format_bytes_PInt_returns by blast
  have ru': "format_bytes B (PInt (tk * 1024 - fk * 1024)) = Inr ru"
    using ru by (simp add: algebra_simps)
  have x: "extract_values B t (payload_numbers tk fk u f fs) =
     Inr \<lparr>server_data = PDict [], active_users = PDict [], system_info = ?si,
          db_info = PDict [], php_info = PDict [], storage_data = ?sd, shares = PDict [],
          sys_health = \<lparr>ram_total = tk * 1024, ram_used = (tk - fk) * 1024,
                        swap_total = 0, swap_used = 0\<rparr>,
          cpu_loads = (PInt 0, PInt 0, PInt 0),
          opcache_hit_rate = PFloat (Fin 0 0), opcache_used_memory = PInt 0,
          wasted_memory = PInt 0, uptime_display = ''N/A or Fresh Start'',
          storage_used_display = fst st, storage_free_display = snd st,
          apps = app_summary B PNone\<rparr>"
    unfolding extract_values_def payload_numbers_def
    by (simp add: ocs_data_item_def ocs_data_get_def h st get_int_def cpu_load_def cpu_load_at_def)
  have "\<exists>ys. collect (update_entries B \<lparr>server_data = PDict [], active_users = PDict [],
          system_info = ?si,
          db_info = PDict [], php_info = PDict [], storage_data = ?sd, shares = PDict [],
          sys_health = \<lparr>ram_total = tk * 1024, ram_used = (tk - fk) * 1024,
                        swap_total = 0, swap_used = 0\<rparr>,
          cpu_loads = (PInt 0, PInt 0, PInt 0),
          opcache_hit_rate = PFloat (Fin 0 0), opcache_used_memory = PInt 0,
          wasted_memory = PInt 0, uptime_display = ''N/A or Fresh Start'',
          storage_used_display = fst st, storage_free_display = snd st,
          apps = app_summary B PNone\<rparr>) = Inr ys"
    by (simp add: update_entries_def get_str_def get_int_def rt ru ru' float_of_int_0)
  then show ?thesis
    unfolding normalize_payload_def x by auto
qed

text \<open>
  Claim C4, as the code has it. For every payload that is processed into a snapshot, the
  byte counts of RAM and swap come from the coerced kilobyte fields of the system group by
  the factor 1024: total is \<open>total_kb * 1024\<close>, used is \<open>(total_kb - free_kb) * 1024\<close>, and
  the labels show \<^verbatim>\<open>format_bytes\<close> of them. Nothing is clamped: the used byte count is
  non-negative exactly when the payload reports no more free than total.
\<close>

theorem ram_swap_bytes:
  assumes "normalize_payload B t data = Inr snap"
  shows "\<exists>nc si tk fk stk sfk ru rt su.
           ocs_data_item data ''nextcloud'' = Inr nc \<and>
           dict_get nc ''system'' (PDict []) = Inr si \<and>
           get_int B si ''mem_total'' (PInt 0) = Inr tk \<and>
           get_int B si ''mem_free'' (PInt 0) = Inr fk \<and>
           get_int B si ''swap_total'' (PInt 0) = Inr stk \<and>
           get_int B si ''swap_free'' (PInt 0) = Inr sfk \<and>
           format_bytes B (PInt ((tk - fk) * 1024)) = Inr ru \<and>
           format_bytes B (PInt (tk * 1024)) = Inr rt \<and>
           format_bytes B (PInt ((stk - sfk) * 1024)) = Inr su \<and>
           map_of (updates snap) ''ram_used_val'' = Some ru \<and>
           map_of (updates snap) ''ram_total_val'' = Some rt \<and>
           map_of (updates snap) ''swap_used_val'' = Some su \<and>
           (0 \<le> (tk - fk) * 1024 \<longleftrightarrow> fk \<le> tk) \<and>
           (0 \<le> (stk - sfk) * 1024 \<longleftrightarrow> sfk \<le> stk)"
proof -
  from normalize_payload_Inr[OF assms] obtain x where
    x: "extract_values B t data = Inr x" and c: "collect (update_entries B x) = Inr (updates snap)"
    by blast
  from extract_values_Inr(1)[OF x] obtain nc where
    nc: "ocs_data_item data ''nextcloud'' = Inr nc"
      "dict_get nc ''system'' (PDict []) = Inr (system_info x)" by blast
  from system_health_Inr[OF extract_values_Inr(2)[OF x]] obtain tk fk stk sfk where
    g: "get_int B (system_info x) ''mem_total'' (PInt 0) = Inr tk"
       "get_int B (system_info x) ''mem_free'' (PInt 0) = Inr fk"
       "get_int B (system_info x) ''swap_total'' (PInt 0) = Inr stk"
       "get_int B (system_info x) ''swap_free'' (PInt 0) = Inr sfk"
    and h: "ram_total (sys_health x) = tk * 1024" "ram_used (sys_health x) = (tk - fk) * 1024"
       "swap_used (sys_health x) = (stk - sfk) * 1024"
    by blast
  from collect_map_of[OF c update_entries_computed(5)] obtain ru where
    ru: "format_bytes B (PInt (ram_used (sys_health x))) = Inr ru"
      "map_of (updates snap) ''ram_used_val'' = Some ru" by blast
  from collect_map_of[OF c update_entries_computed(6)] obtain rt where
    rt: "format_bytes B (PInt (ram_total (sys_health x))) = Inr rt"
      "map_of (updates snap) ''ram_total_val'' = Some rt" by blast
  from collect_map_of[OF c update_entries_computed(7)] obtain su where
    su: "format_bytes B (PInt (swap_used (sys_health x))) = Inr su"
      "map_of (updates snap) ''swap_used_val'' = Some su" by blast
  have i1: "(0 \<le> (tk - fk) * 1024) = (fk \<le> tk)" by simp
  have i2: "(0 \<le> (stk - sfk) * 1024) = (sfk \<le> stk)" by simp
  show ?thesis
    apply (intro exI conjI)
                 apply (rule nc(1))
                apply (rule nc(2))
               apply (rule g(1))
              apply (rule g(2))
             apply (rule g(3))
            apply (rule g(4))
           apply (rule ru(1)[unfolded h])
          apply (rule rt(1)[unfolded h])
         apply (rule su(1)[unfolded h])
        apply (rule ru(2))
       apply (rule rt(2))
      apply (rule su(2))
     apply (rule i1)
    apply (rule i2)
    done
qed


theorem ram_swap_bytes_witness:
  "\<exists>snap. normalize_payload reference_builtins 0 payload_free_exceeds_total = Inr snap \<and>
     (\<exists>nc si tk fk stk sfk ru rt su.
           ocs_data_item payload_free_exceeds_total ''nextcloud'' = Inr nc \<and>
           dict_get nc ''system'' (PDict []) = Inr si \<and>
           get_int reference_builtins si ''mem_total'' (PInt 0) = Inr tk \<and>
           get_int reference_builtins si ''mem_free'' (PInt 0) = Inr fk \<and>
           get_int reference_builtins si ''swap_total'' (PInt 0) = Inr stk \<and>
           get_int reference_builtins si ''swap_free'' (PInt 0) = Inr sfk \<and>
           format_bytes reference_builtins (PInt ((tk - fk) * 1024)) = Inr ru \<and>
           format_bytes reference_builtins (PInt (tk * 1024)) = Inr rt \<and>
           format_bytes reference_builtins (PInt ((stk - sfk) * 1024)) = Inr su \<and>
           map_of (updates snap) ''ram_used_val'' = Some ru \<and>
           map_of (updates snap) ''ram_total_val'' = Some rt \<and>
           map_of (updates snap) ''swap_used_val'' = Some su \<and>
           (0 \<le> (tk - fk) * 1024 \<longleftrightarrow> fk \<le> tk) \<and>
           (0 \<le> (stk - sfk) * 1024 \<longleftrightarrow> sfk \<le> stk))"
proof -
  from normalize_free_exceeds_total obtain snap where
    n: "normalize_payload reference_builtins 0 payload_free_exceeds_total = Inr snap"
    by (cases "normalize_payload reference_builtins 0 payload_free_exceeds_total") auto
  from ram_swap_bytes[OF n] n show ?thesis by (intro exI[of _ snap] conjI)
qed

text \<open>
  Claim C4 fails as stated: a payload that reports 1 kilobyte of memory in total and 2
  kilobytes free gives a used byte count of \<open>- 1024\<close>, and the label shows it.
\<close>

theorem ram_used_negative:
  "(case normalize_payload reference_builtins 0 payload_free_exceeds_total of
      Inr snap \<Rightarrow> map_of (updates snap) ''ram_used_val'' = Some ''-1024.00 Bytes''
    | Inl e \<Rightarrow> False) \<and>
   (case system_health reference_builtins
           (PDict [(''mem_total'', PInt 1), (''mem_free'', PInt 2)]) of
      Inr h \<Rightarrow> ram_used h = - 1024 \<and> ram_used h < 0
    | Inl e \<Rightarrow> False)"
  by code_simp

text \<open>
  Claim C7, as the code has it. For every payload that is processed into a snapshot: when
  the used and the free field of the storage group both coerce to 0, the label of the used
  storage shows ``0 Bytes (Data Missing)'' and the label of the free storage shows
  \<^verbatim>\<open>format_bytes\<close> of the coerced \<^verbatim>\<open>freespace\<close> field of the system group followed by
  `` (System Freespace)''; when one of the two is not 0, the two labels show
  \<^verbatim>\<open>format_bytes\<close> of the coerced used and free fields.
\<close>

theorem storage_fallback:
  assumes "normalize_payload B t data = Inr snap"
  shows "\<exists>nc sd si u f.
           ocs_data_item data ''nextcloud'' = Inr nc \<and>
           dict_get nc ''storage'' (PDict []) = Inr sd \<and>
           dict_get nc ''system'' (PDict []) = Inr si \<and>
           get_int B sd ''used'' PNone = Inr u \<and> get_int B sd ''free'' PNone = Inr f \<and>
           (u = 0 \<and> f = 0 \<longrightarrow>
              map_of (updates snap) ''storage_used_val'' = Some ''0 Bytes (Data Missing)'' \<and>
              (\<exists>fs s. get_int B si ''freespace'' PNone = Inr fs \<and>
                 format_bytes B (PInt fs) = Inr s \<and>
                 map_of (updates snap) ''storage_free_val'' = Some (s @ '' (System Freespace)''))) \<and>
           (u \<noteq> 0 \<or> f \<noteq> 0 \<longrightarrow>
              (\<exists>su sf. format_bytes B (PInt u) = Inr su \<and> format_bytes B (PInt f) = Inr sf \<and>
                 map_of (updates snap) ''storage_used_val'' = Some su \<and>
                 map_of (updates snap) ''storage_free_val'' = Some sf))"
proof -
  from normalize_payload_Inr[OF assms] obtain x where
    x: "extract_values B t data = Inr x" and c: "collect (update_entries B x) = Inr (updates snap)"
    by blast
  from extract_values_Inr(1)[OF x] obtain nc where
    nc: "ocs_data_item data ''nextcloud'' = Inr nc"
      "dict_get nc ''storage'' (PDict []) = Inr (storage_data x)"
      "dict_get nc ''system'' (PDict []) = Inr (system_info x)" by blast
  from collect_map_of[OF c update_entries_computed(1)]
  have l1: "map_of (updates snap) ''storage_used_val'' = Some (storage_used_display x)" by simp
  from collect_map_of[OF c update_entries_computed(2)]
  have l2: "map_of (updates snap) ''storage_free_val'' = Some (storage_free_display x)" by simp
  from storage_displays_Inr[OF extract_values_Inr(3)[OF x]] obtain u f where
    uf: "get_int B (storage_data x) ''used'' PNone = Inr u"
        "get_int B (storage_data x) ''free'' PNone = Inr f"
    and z: "u = 0 \<and> f = 0 \<longrightarrow> storage_used_display x = ''0 Bytes (Data Missing)'' \<and>
        (\<exists>fs s. get_int B (system_info x) ''freespace'' PNone = Inr fs \<and>
           format_bytes B (PInt fs) = Inr s \<and>
           storage_free_display x = s @ '' (System Freespace)'')"
    and nz: "u \<noteq> 0 \<or> f \<noteq> 0 \<longrightarrow>
        format_bytes B (PInt u) = Inr (storage_used_display x) \<and>
        format_bytes B (PInt f) = Inr (storage_free_display x)"
    by blast
  have a: "u = 0 \<and> f = 0 \<longrightarrow>
      map_of (updates snap) ''storage_used_val'' = Some ''0 Bytes (Data Missing)'' \<and>
      (\<exists>fs s. get_int B (system_info x) ''freespace'' PNone = Inr fs \<and>
         format_bytes B (PInt fs) = Inr s \<and>
         map_of (updates snap) ''storage_free_val'' = Some (s @ '' (System Freespace)''))"
    using z unfolding l1 l2 by blast
  have b: "u \<noteq> 0 \<or> f \<noteq> 0 \<longrightarrow>
      (\<exists>su sf. format_bytes B (PInt u) = Inr su \<and> format_bytes B (PInt f) = Inr sf \<and>
         map_of (updates snap) ''storage_used_val'' = Some su \<and>
         map_of (updates snap) ''storage_free_val'' = Some sf)"
    using nz unfolding l1 l2 by blast
  show ?thesis
    apply (rule exI[of _ nc], rule exI[of _ "storage_data x"], rule exI[of _ "system_info x"],
        rule exI[of _ u], rule exI[of _ f])
    apply (intro conjI)
          apply (rule nc(1))
         apply (rule nc(2))
        apply (rule nc(3))
       apply (rule uf(1))
      apply (rule uf(2))
     apply (rule a)
    apply (rule b)
    done
qed


theorem storage_fallback_witness:
  "\<exists>snap. normalize_payload reference_builtins 0 payload_storage_zero = Inr snap \<and>
     map_of (updates snap) ''storage_used_val'' = Some ''0 Bytes (Data Missing)'' \<and>
     map_of (updates snap) ''storage_free_val'' = Some ''4.88 KB (System Freespace)'' \<and>
     (\<exists>nc sd si u f.
           ocs_data_item payload_storage_zero ''nextcloud'' = Inr nc \<and>
           dict_get nc ''storage'' (PDict []) = Inr sd \<and>
           dict_get nc ''system'' (PDict []) = Inr si \<and>
           get_int reference_builtins sd ''used'' PNone = Inr u \<and>
           get_int reference_builtins sd ''free'' PNone = Inr f \<and>
           (u = 0 \<and> f = 0 \<longrightarrow>
              map_of (updates snap) ''storage_used_val'' = Some ''0 Bytes (Data Missing)'' \<and>
              (\<exists>fs s. get_int reference_builtins si ''freespace'' PNone = Inr fs \<and>
                 format_bytes reference_builtins (PInt fs) = Inr s \<and>
                 map_of (updates snap) ''storage_free_val'' = Some (s @ '' (System Freespace)''))) \<and>
           (u \<noteq> 0 \<or> f \<noteq> 0 \<longrightarrow>
              (\<exists>su sf. format_bytes reference_builtins (PInt u) = Inr su \<and>
                 format_bytes reference_builtins (PInt f) = Inr sf \<and>
                 map_of (updates snap) ''storage_used_val'' = Some su \<and>
                 map_of (updates snap) ''storage_free_val'' = Some sf)))"
proof -
  from normalize_storage_zero obtain snap where
    n: "normalize_payload reference_builtins 0 payload_storage_zero = Inr snap"
    and l: "map_of (updates snap) ''storage_used_val'' = Some ''0 Bytes (Data Missing)''"
      "map_of (updates snap) ''storage_free_val'' = Some ''4.88 KB (System Freespace)''"
    by (cases "normalize_payload reference_builtins 0 payload_storage_zero") auto
  from storage_fallback[OF n] n l show ?thesis by (intro exI[of _ snap] conjI)
qed

text \<open>
  Claim C7 fails as stated: in a payload whose storage fields both coerce to 0 and whose
  \<^verbatim>\<open>activeUsers\<close> group is missing, the processing raises before any label is set, and
  the two storage labels keep the text N/A.
\<close>

theorem storage_zero_not_shown:
  "get_int reference_builtins (PDict [(''used'', PInt 0), (''free'', PInt 0)]) ''used'' PNone = Inr 0 \<and>
   get_int reference_builtins (PDict [(''used'', PInt 0), (''free'', PInt 0)]) ''free'' PNone = Inr 0 \<and>
   normalize_payload reference_builtins 0 payload_storage_zero_no_active_users =
     Inl (KeyError ''activeUsers'') \<and>
   map_of (metric_labels (update_gui_metrics reference_builtins 0
     payload_storage_zero_no_active_users (init_app cfg_a))) ''storage_used_val'' = Some ''N/A'' \<and>
   map_of (metric_labels (update_gui_metrics reference_builtins 0
     payload_storage_zero_no_active_users (init_app cfg_a))) ''storage_free_val'' = Some ''N/A''"
  by code_simp




lemma app_summary_missing:
  assumes "ad = PNone \<or> (\<forall>kvs. ad \<noteq> PDict kvs) \<or>
     (\<exists>kvs v. ad = PDict kvs \<and>
        (map_of kvs ''enabled'' = Some v \<or> map_of kvs ''installed'' = Some v) \<and>
        (\<forall>xs. v \<noteq> PList xs))"
  shows "app_summary B ad = app_missing"
proof (cases ad)
  case (PDict kvs)
  with assms obtain v where
    v: "map_of kvs ''enabled'' = Some v \<or> map_of kvs ''installed'' = Some v" "\<forall>xs. v \<noteq> PList xs"
    by auto
  from v(1) show ?thesis
  proof
    assume "map_of kvs ''enabled'' = Some v"
    with v(2) PDict show ?thesis
      by (cases v) (simp_all add: app_summary_def)
  next
    assume i: "map_of kvs ''installed'' = Some v"
    show ?thesis
    proof (cases "case map_of kvs ''enabled'' of None \<Rightarrow> PList [] | Some x \<Rightarrow> x")
      case (PList en)
      with i v(2) PDict show ?thesis
        by (cases v) (simp_all add: app_summary_def)
    qed (simp_all add: app_summary_def PDict)
  qed
qed (simp_all add: app_summary_def)

lemma app_summary_lists:
  assumes "map_of kvs ''enabled'' = Some (PList en)"
    and "map_of kvs ''installed'' = Some (PList inst)"
  shows "app_summary B (PDict kvs) =
     \<lparr>enabled_app_count = str_nat (length en),
      total_app_count = str_nat (length inst),
      enabled_app_lines_str = join [CHR 0x0A] (sort (concat (map (app_lines B) en)))\<rparr>"
proof -
  from assms(1) have "kvs \<noteq> []" by auto
  with assms show ?thesis by (simp add: app_summary_def)
qed

lemma app_lines_one:
  assumes "\<forall>e\<in>set en. (\<exists>s. e = PStr s) \<or> (\<exists>kvs. e = PDict kvs)"
  shows "length (concat (map (app_lines B) en)) = length en"
  using assms
proof (induction en)
  case Nil
  then show ?case by simp
next
  case (Cons e en)
  then have "length (app_lines B e) = 1" by auto
  with Cons show ?case by simp
qed

lemma normalize_payload_with_app:
  "normalize_payload B t (payload_with_app ad) =
     Inr \<lparr>updates = sentinel_updates (app_summary B ad),
          app_lines_text = enabled_app_lines_str (app_summary B ad)\<rparr>"
  by (rule normalize_empty_groups)
    (simp_all add: payload_with_app_def ocs_data_item_def ocs_data_get_def)

text \<open>
  Claim C8, as the code has it. For every payload that is processed into a snapshot, the
  two app counts and the app list are those of the app section
  \<^verbatim>\<open>data['ocs']['data'].get('app')\<close>. The app section itself never raises: a payload
  whose three groups hold no field is processed for every value of the app section. An
  app section that is absent, is not a dictionary, or has a value that is not a list under
  \<^verbatim>\<open>enabled\<close> or \<^verbatim>\<open>installed\<close> gives the two ``N/A (Data Missing)'' counts and the fixed
  text. An app section with a list under both keys gives the lengths of the two lists as
  counts and the sorted lines of the enabled entries joined by newlines; a bare name gives
  the line of the name with version N/A, a record gives the line of its id and version,
  and when every entry is a name or a record there is one line for each entry.
\<close>

theorem app_section:
  "(\<forall>snap. normalize_payload B t data = Inr snap \<longrightarrow>
      (\<exists>ad. ocs_data_get data ''app'' PNone = Inr ad \<and>
         map_of (updates snap) ''enabled_apps_val'' = Some (enabled_app_count (app_summary B ad)) \<and>
         map_of (updates snap) ''app_count_val'' = Some (total_app_count (app_summary B ad)) \<and>
         app_lines_text snap = enabled_app_lines_str (app_summary B ad))) \<and>
   (\<forall>ad. normalize_payload B t (payload_with_app ad) =
      Inr \<lparr>updates = sentinel_updates (app_summary B ad),
           app_lines_text = enabled_app_lines_str (app_summary B ad)\<rparr>) \<and>
   (\<forall>ad. ad = PNone \<or> (\<forall>kvs. ad \<noteq> PDict kvs) \<or>
      (\<exists>kvs v. ad = PDict kvs \<and>
         (map_of kvs ''enabled'' = Some v \<or> map_of kvs ''installed'' = Some v) \<and>
         (\<forall>xs. v \<noteq> PList xs)) \<longrightarrow>
      enabled_app_count (app_summary B ad) = ''N/A (Data Missing)'' \<and>
      total_app_count (app_summary B ad) = ''N/A (Data Missing)'' \<and>
      enabled_app_lines_str (app_summary B ad) =
        ''APP DATA IS MISSING FROM NEXTCLOUD API RESPONSE.'') \<and>
   (\<forall>kvs en inst.
      map_of kvs ''enabled'' = Some (PList en) \<and> map_of kvs ''installed'' = Some (PList inst) \<longrightarrow>
      enabled_app_count (app_summary B (PDict kvs)) = str_nat (length en) \<and>
      total_app_count (app_summary B (PDict kvs)) = str_nat (length inst) \<and>
      enabled_app_lines_str (app_summary B (PDict kvs)) =
        join [CHR 0x0A] (sort (concat (map (app_lines B) en))) \<and>
      sorted (sort (concat (map (app_lines B) en))) \<and>
      set (sort (concat (map (app_lines B) en))) = (\<Union>e\<in>set en. set (app_lines B e)) \<and>
      ((\<forall>e\<in>set en. (\<exists>s. e = PStr s) \<or> (\<exists>kvs'. e = PDict kvs')) \<longrightarrow>
         length (sort (concat (map (app_lines B) en))) = length en)) \<and>
   (\<forall>name. app_lines B (PStr name) = [entry_line name None]) \<and>
   (\<forall>kvs name. map_of kvs ''id'' = Some (PStr name) \<longrightarrow>
      app_lines B (PDict kvs) =
        [entry_line name (map_option (py_str B) (map_of kvs ''version''))])"
proof (intro conjI allI impI)
  fix snap assume n: "normalize_payload B t data = Inr snap"
  from normalize_payload_Inr[OF n] obtain x where
    x: "extract_values B t data = Inr x" and c: "collect (update_entries B x) = Inr (updates snap)"
    and a: "app_lines_text snap = enabled_app_lines_str (apps x)"
    by blast
  from extract_values_Inr(4)[OF x] obtain ad where
    ad: "ocs_data_get data ''app'' PNone = Inr ad" "apps x = app_summary B ad" by blast
  from collect_map_of[OF c update_entries_computed(3)]
  have l1: "map_of (updates snap) ''enabled_apps_val'' = Some (enabled_app_count (apps x))" by simp
  from collect_map_of[OF c update_entries_computed(4)]
  have l2: "map_of (updates snap) ''app_count_val'' = Some (total_app_count (apps x))" by simp
  show "\<exists>ad. ocs_data_get data ''app'' PNone = Inr ad \<and>
         map_of (updates snap) ''enabled_apps_val'' = Some (enabled_app_count (app_summary B ad)) \<and>
         map_of (updates snap) ''app_count_val'' = Some (total_app_count (app_summary B ad)) \<and>
         app_lines_text snap = enabled_app_lines_str (app_summary B ad)"
    using ad(1) l1 l2 a unfolding ad(2) by (intro exI[of _ ad] conjI)
next
  fix ad
  show "normalize_payload B t (payload_with_app ad) =
      Inr \<lparr>updates = sentinel_updates (app_summary B ad),
           app_lines_text = enabled_app_lines_str (app_summary B ad)\<rparr>"
    by (rule normalize_payload_with_app)
next
  fix ad
  assume m: "ad = PNone \<or> (\<forall>kvs. ad \<noteq> PDict kvs) \<or>
      (\<exists>kvs v. ad = PDict kvs \<and>
         (map_of kvs ''enabled'' = Some v \<or> map_of kvs ''installed'' = Some v) \<and>
         (\<forall>xs. v \<noteq> PList xs))"
  have s: "app_summary B ad = app_missing" by (rule app_summary_missing[OF m])
  show "enabled_app_count (app_summary B ad) = ''N/A (Data Missing)''"
    by (simp add: s app_missing_def)
  show "total_app_count (app_summary B ad) = ''N/A (Data Missing)''"
    by (simp add: s app_missing_def)
  show "enabled_app_lines_str (app_summary B ad) =
        ''APP DATA IS MISSING FROM NEXTCLOUD API RESPONSE.''"
    by (simp add: s app_missing_def)
next
  fix kvs en inst
  assume w: "map_of kvs ''enabled'' = Some (PList en) \<and> map_of kvs ''installed'' = Some (PList inst)"
  then have s: "app_summary B (PDict kvs) =
     \<lparr>enabled_app_count = str_nat (length en),
      total_app_count = str_nat (length inst),
      enabled_app_lines_str = join [CHR 0x0A] (sort (concat (map (app_lines B) en)))\<rparr>"
    by (intro app_summary_lists) simp_all
  show "enabled_app_count (app_summary B (PDict kvs)) = str_nat (length en)"
    by (simp add: s)
  show "total_app_count (app_summary B (PDict kvs)) = str_nat (length inst)"
    by (simp add: s)
  show "enabled_app_lines_str (app_summary B (PDict kvs)) =
        join [CHR 0x0A] (sort (concat (map (app_lines B) en)))"
    by (simp add: s)
  show "sorted (sort (concat (map (app_lines B) en)))"
    by (rule sorted_sort)
  show "set (sort (concat (map (app_lines B) en))) = (\<Union>e\<in>set en. set (app_lines B e))"
    by simp
  { assume "\<forall>e\<in>set en. (\<exists>s. e = PStr s) \<or> (\<exists>kvs'. e = PDict kvs')"
    then show "length (sort (concat (map (app_lines B) en))) = length en"
      by (simp add: app_lines_one) }
next
  fix name show "app_lines B (PStr name) = [entry_line name None]"
    by (simp add: entry_line_def)
next
  fix kvs name assume "map_of kvs ''id'' = Some (PStr name)"
  then show "app_lines B (PDict kvs) =
        [entry_line name (map_option (py_str B) (map_of kvs ''version''))]"
    by (cases "map_of kvs ''version''") (simp_all add: entry_line_def)
qed


theorem app_section_witness:
  "normalize_payload reference_builtins 0 (payload_with_app app_two_enabled) =
     Inr \<lparr>updates = sentinel_updates (app_summary reference_builtins app_two_enabled),
          app_lines_text = ''files: v1.2.3'' @ [CHR 0x0A] @ ''notes: vN/A''\<rparr> \<and>
   enabled_app_count (app_summary reference_builtins app_two_enabled) = ''2'' \<and>
   total_app_count (app_summary reference_builtins app_two_enabled) = ''3'' \<and>
   enabled_app_lines_str (app_summary reference_builtins (PDict [(''enabled'', PStr ''files'')])) =
     ''APP DATA IS MISSING FROM NEXTCLOUD API RESPONSE.''"
proof -
  note t = app_section[of reference_builtins 0 "payload_with_app app_two_enabled"]
  from t have 1: "normalize_payload reference_builtins 0 (payload_with_app app_two_enabled) =
     Inr \<lparr>updates = sentinel_updates (app_summary reference_builtins app_two_enabled),
          app_lines_text = enabled_app_lines_str (app_summary reference_builtins app_two_enabled)\<rparr>"
    by blast
  have m: "PDict [(''enabled'', PStr ''files'')] = PNone \<or>
      (\<forall>kvs. PDict [(''enabled'', PStr ''files'')] \<noteq> PDict kvs) \<or>
      (\<exists>kvs v. PDict [(''enabled'', PStr ''files'')] = PDict kvs \<and>
         (map_of kvs ''enabled'' = Some v \<or> map_of kvs ''installed'' = Some v) \<and>
         (\<forall>xs. v \<noteq> PList xs))"
    by (intro disjI2 exI[of _ "[(''enabled'', PStr ''files'')]"] exI[of _ "PStr ''files''"]) simp
  from t m have 2: "enabled_app_lines_str
      (app_summary reference_builtins (PDict [(''enabled'', PStr ''files'')])) =
     ''APP DATA IS MISSING FROM NEXTCLOUD API RESPONSE.''"
    by blast
  from 1 2 show ?thesis by (simp add: app_summary_two_enabled)
qed

text \<open>
  Claim C8 fails as stated: in a payload whose app section has a string under
  \<^verbatim>\<open>enabled\<close> and whose \<^verbatim>\<open>activeUsers\<close> group is missing, the processing raises; the
  count label and the app list keep their placeholder texts.
\<close>

theorem malformed_app_not_shown:
  "normalize_payload reference_builtins 0 payload_bad_app_no_active_users =
     Inl (KeyError ''activeUsers'') \<and>
   map_of (metric_labels (update_gui_metrics reference_builtins 0
     payload_bad_app_no_active_users (init_app cfg_a))) ''enabled_apps_val'' = Some ''N/A'' \<and>
   app_list_text (update_gui_metrics reference_builtins 0
     payload_bad_app_no_active_users (init_app cfg_a)) = ''Apps list loading...'' \<and>
   status_bar (update_gui_metrics reference_builtins 0
     payload_bad_app_no_active_users (init_app cfg_a)) = ErrorProcessingData"
  by code_simp

section \<open>Byte counts\<close>

lemma float_of_int_2_80:
  "float_of_int 1208925819614629174706175 = Inr (Fin 1208925819614629174706176 0)"
  by code_simp

lemma safe_int_2_80:
  "safe_int B (PInt 1208925819614629174706175) = Inr 1208925819614629174706176"
  by (simp add: safe_int_def float_of_int_2_80)

lemma fmt_2f_ratio_2_80:
  "fmt_2f_ratio 1208925819614629174706176 1208925819614629174706176 = ''1.00''"
  by code_simp

lemma sizes_8: "sizes ! 8 = ''YB''" "length sizes = 9"
  by (simp_all add: sizes_def)

lemma exact_floor_log_2_80: "exact_floor_log 1208925819614629174706176 = 8"
proof -
  have 1: "floorlog 1024 (1 * 1024 ^ 8) = floorlog 1024 1 + 8"
    by (rule floorlog_power) simp_all
  have 2: "floorlog 1024 1 = 1"
    by (subst compute_floorlog) (simp add: floorlog_def)
  have 3: "nat 1208925819614629174706176 = 1 * 1024 ^ 8" by simp
  show ?thesis unfolding exact_floor_log_def 3 1 2 by simp
qed

text \<open>
  Claim C5 at a byte count where the code departs from it. \<^verbatim>\<open>format_bytes\<close> first
  coerces the count with \<^verbatim>\<open>int(float(_))\<close>, which rounds \<open>2 ^ 80 - 1\<close> up to \<open>2 ^ 80\<close>;
  the logarithm of \<open>2 ^ 80\<close> to the base 1024 is 8, so the unit index is 8 and the text
  is ``1.00 YB'', although \<open>1024 ^ 8\<close> is greater than the count.
\<close>

theorem format_bytes_unit_too_large:
  assumes "math_floor_log B (2 ^ 80) = 8"
  shows "safe_int B (PInt (2 ^ 80 - 1)) = Inr (2 ^ 80) \<and>
         format_bytes B (PInt (2 ^ 80 - 1)) = Inr ''1.00 YB'' \<and>
         \<not> ((1024::int) ^ 8 \<le> 2 ^ 80 - 1)"
proof -
  from assms have l: "math_floor_log B 1208925819614629174706176 = 8" by simp
  have "format_bytes B (PInt 1208925819614629174706175) = Inr ''1.00 YB''"
    by (simp add: format_bytes_def safe_int_2_80 l Let_def sizes_8 fmt_2f_ratio_2_80)
  then show ?thesis by (simp add: safe_int_2_80)
qed

theorem format_bytes_unit_too_large_witness:
  "math_floor_log reference_builtins (2 ^ 80) = 8 \<and>
   format_bytes reference_builtins (PInt (2 ^ 80 - 1)) = Inr ''1.00 YB''"
proof -
  have h: "math_floor_log reference_builtins (2 ^ 80) = 8"
    by (simp add: reference_builtins_def exact_floor_log_2_80)
  from format_bytes_unit_too_large[OF h] h show ?thesis by simp
qed

end
